theory Spec2Isabelle
  imports Main "HOL-Library.Sublist" "HOL-Library.List_Lexorder" "HOL-Library.Char_ord"
begin

section \<open>Go values used by both packages\<close>

text \<open>
  The codes of a connect error. Only \<open>CodeNotFound\<close>, \<open>CodeAlreadyExists\<close>,
  \<open>CodeInternal\<close> and \<open>CodeUnknown\<close> are named by the code under study; the
  others stand for every other answer of the registry.
\<close>

datatype Code =
    CodeCanceled | CodeUnknown | CodeInvalidArgument | CodeDeadlineExceeded
  | CodeNotFound | CodeAlreadyExists | CodePermissionDenied | CodeResourceExhausted
  | CodeFailedPrecondition | CodeAborted | CodeOutOfRange | CodeUnimplemented
  | CodeInternal | CodeUnavailable | CodeDataLoss | CodeUnauthenticated

text \<open>
  A git hash is an opaque value identified by its hex form. A nil \<open>git.Hash\<close> is
  \<open>None :: Hash option\<close>.
\<close>

datatype Hash = Hash (Hex: string)

text \<open>
  \<open>bufmoduleref.ModuleIdentity\<close> and \<open>bufsync.Module\<close> are interfaces: a value is
  the record of what its methods return. A nil interface value is \<open>None\<close>.
\<close>

record ModuleIdentity =
  mi_Remote :: string
  mi_Owner :: string
  mi_Repository :: string
  mi_IdentityString :: string

record Module =
  module_Dir :: string
  module_RemoteIdentity :: "ModuleIdentity option"
  module_String :: string

text \<open>
  Go errors. A formatted error keeps its format string and its arguments apart, so no
  rendering of \<open>%s\<close>, \<open>%q\<close> or \<open>%v\<close> has to be assumed; \<open>ErrorfW\<close> is
  \<open>fmt.Errorf\<close> with a \<open>%w\<close> verb and holds the wrapped error. The two sentinels are
  \<open>bufsync.ErrModuleDoesNotExist\<close> and \<open>git.ErrObjectNotFound\<close>.
  \<open>InvalidArgumentErrorf\<close> is \<open>appcmd.NewInvalidArgumentErrorf\<close>, and
  \<open>InvalidArgumentErrorOf err\<close> is \<open>appcmd.NewInvalidArgumentError(err.Error())\<close>: an
  invalid-argument error with the message of \<open>err\<close>, which it does not wrap. A Go value of
  type \<open>error\<close> is an \<open>error option\<close>, \<open>None\<close> being nil.
\<close>

datatype arg =
    ArgString string
  | ArgStringSet "string set"
  | ArgHash Hash
  | ArgModule Module

datatype error =
    ErrModuleDoesNotExist
  | ErrObjectNotFound
  | ConnectError Code string
  | InvalidArgumentErrorf string "arg list"
  | InvalidArgumentErrorOf error
  | Errorf string "arg list"
  | ErrorfW string "arg list" error
  | OtherError string

text \<open>\<open>connect.CodeOf\<close>: the code of the connect error in the chain, else unknown.\<close>

fun CodeOf :: "error \<Rightarrow> Code" where
  "CodeOf (ConnectError c msg) = c"
| "CodeOf (ErrorfW f as e) = CodeOf e"
| "CodeOf e = CodeUnknown"

text \<open>\<open>errors.Is\<close>: the target is the error or is reached by unwrapping it.\<close>

fun errors_Is :: "error \<Rightarrow> error \<Rightarrow> bool" where
  "errors_Is (ErrorfW f as e) target = (ErrorfW f as e = target \<or> errors_Is e target)"
| "errors_Is e target = (e = target)"

fun is_invalid_argument :: "error \<Rightarrow> bool" where
  "is_invalid_argument (InvalidArgumentErrorf f as) = True"
| "is_invalid_argument (InvalidArgumentErrorOf err) = True"
| "is_invalid_argument e = False"

section \<open>Package bufsync: the syncer's configuration\<close>

text \<open>
  The fields of the \<open>syncer\<close> struct that the options of \<open>bufsync.go\<close> write. The
  three collaborators are type parameters: the options only store them.
\<close>

record ('r, 'c, 'g) syncer =
  syncer_modulesToSync :: "Module list"
  syncer_syncPointResolver :: "'r option"
  syncer_syncedGitCommitChecker :: "'c option"
  syncer_moduleDefaultBranchGetter :: "'g option"
  syncer_allBranches :: bool

text \<open>
  \<open>type SyncerOption func(*syncer) error\<close>: the option returns its error and the
  syncer as it left it.
\<close>

type_synonym ('r, 'c, 'g) SyncerOption =
  "('r, 'c, 'g) syncer \<Rightarrow> error option \<times> ('r, 'c, 'g) syncer"

text \<open>The loop of \<open>SyncerWithModule\<close> over the modules registered so far.\<close>

fun duplicateModule :: "Module list \<Rightarrow> Module \<Rightarrow> error option" where
  "duplicateModule [] module = None"
| "duplicateModule (existingModule # rest) module =
     (if module_String existingModule = module_String module
      then Some (Errorf ''duplicate module %s'' [ArgModule module])
      else duplicateModule rest module)"

text \<open>
  \<open>NewModule\<close> hands its arguments to \<open>newSyncableModule\<close>, which is not part of the
  code under study and is a parameter here.
\<close>

definition NewModule ::
  "(string \<Rightarrow> ModuleIdentity option \<Rightarrow> error + Module)
     \<Rightarrow> string \<Rightarrow> ModuleIdentity option \<Rightarrow> error + Module" where
  "NewModule newSyncableModule dir identityOverride = newSyncableModule dir identityOverride"

definition SyncerWithModule :: "Module \<Rightarrow> ('r, 'c, 'g) SyncerOption" where
  "SyncerWithModule module s =
     (case duplicateModule (syncer_modulesToSync s) module of
        Some err \<Rightarrow> (Some err, s)
      | None \<Rightarrow> (None, s\<lparr>syncer_modulesToSync := syncer_modulesToSync s @ [module]\<rparr>))"

definition SyncerWithResumption :: "'r \<Rightarrow> ('r, 'c, 'g) SyncerOption" where
  "SyncerWithResumption resolver s = (None, s\<lparr>syncer_syncPointResolver := Some resolver\<rparr>)"

definition SyncerWithGitCommitChecker :: "'c \<Rightarrow> ('r, 'c, 'g) SyncerOption" where
  "SyncerWithGitCommitChecker checker s =
     (None, s\<lparr>syncer_syncedGitCommitChecker := Some checker\<rparr>)"

definition SyncerWithModuleDefaultBranchGetter :: "'g \<Rightarrow> ('r, 'c, 'g) SyncerOption" where
  "SyncerWithModuleDefaultBranchGetter getter s =
     (None, s\<lparr>syncer_moduleDefaultBranchGetter := Some getter\<rparr>)"

definition SyncerWithAllBranches :: "('r, 'c, 'g) SyncerOption" where
  "SyncerWithAllBranches s = (None, s\<lparr>syncer_allBranches := True\<rparr>)"

section \<open>Package reposync: the collaborators handed to the syncer\<close>

text \<open>
  A Go function either returns or panics; the only panic of the code under study is
  the read of a field through a nil pointer.
\<close>

datatype 'a result = Panic | Return 'a

text \<open>\<open>git.Commit\<close>, as far as its methods are called.\<close>

record Ident =
  ident_Name :: string
  ident_Email :: string
  ident_Timestamp :: int

record Commit =
  commit_Hash :: Hash
  commit_Parents :: "Hash list"
  commit_Author :: Ident
  commit_Committer :: Ident

subsection \<open>The registry's messages\<close>

text \<open>
  The fields of the registry's requests and responses that the code writes or reads. A
  message-typed field is a pointer and may be nil.
\<close>

record GetGitSyncPointRequest =
  gsp_Owner :: string
  gsp_Repository :: string
  gsp_Branch :: string

record GitSyncPoint =
  GitCommitHash :: string
  BsrCommitName :: string

record GetGitSyncPointResponse =
  SyncPoint :: "GitSyncPoint option"

datatype LabelNamespace = LABEL_NAMESPACE_GIT_COMMIT | LABEL_NAMESPACE_OTHER

text \<open>
  \<open>stringutil.MapToSlice\<close> lists the keys of the map in no particular order: the
  request carries them as a set.
\<close>

record GetLabelsInNamespaceRequest =
  RepositoryOwner :: string
  RepositoryName :: string
  LabelNamespace :: LabelNamespace
  LabelNames :: "string set"

record LabelName =
  Name :: string

record Label =
  LabelName :: "LabelName option"

record GetLabelsInNamespaceResponse =
  Labels :: "Label list"

record GetRepositoryByFullNameRequest =
  FullName :: string

record Repository =
  DefaultBranch :: string

record GetRepositoryByFullNameResponse =
  resp_Repository :: "Repository option"

text \<open>
  \<open>connectclient.Config\<close> with the services made from it: each call names the remote
  the client was made for and the request, and yields the transport's error or the
  response.
\<close>

record Config =
  GetGitSyncPoint :: "string \<Rightarrow> GetGitSyncPointRequest \<Rightarrow> error + GetGitSyncPointResponse"
  GetLabelsInNamespace ::
    "string \<Rightarrow> GetLabelsInNamespaceRequest \<Rightarrow> error + GetLabelsInNamespaceResponse"
  GetRepositoryByFullName ::
    "string \<Rightarrow> GetRepositoryByFullNameRequest \<Rightarrow> error + GetRepositoryByFullNameResponse"

definition syncPointRequest :: "ModuleIdentity \<Rightarrow> string \<Rightarrow> GetGitSyncPointRequest" where
  "syncPointRequest module branch =
     \<lparr>gsp_Owner = mi_Owner module, gsp_Repository = mi_Repository module, gsp_Branch = branch\<rparr>"

definition labelsRequest :: "ModuleIdentity \<Rightarrow> string set \<Rightarrow> GetLabelsInNamespaceRequest" where
  "labelsRequest module commitHashes =
     \<lparr>RepositoryOwner = mi_Owner module, RepositoryName = mi_Repository module,
      LabelNamespace = LABEL_NAMESPACE_GIT_COMMIT, LabelNames = commitHashes\<rparr>"

definition repositoryRequest :: "ModuleIdentity \<Rightarrow> GetRepositoryByFullNameRequest" where
  "repositoryRequest module = \<lparr>FullName = mi_Owner module @ ''/'' @ mi_Repository module\<rparr>"

subsection \<open>syncPointResolver\<close>

text \<open>
  \<open>git.NewHashFromHex\<close> is not part of the code under study: it is the parameter
  \<open>NewHashFromHex\<close>. The result \<open>Inr None\<close> is the Go return \<open>nil, nil\<close>.
\<close>

definition syncPointResolver ::
  "(string \<Rightarrow> error + Hash) \<Rightarrow> Config \<Rightarrow> ModuleIdentity \<Rightarrow> string
     \<Rightarrow> (error + Hash option) result" where
  "syncPointResolver NewHashFromHex clientConfig module branch =
     (case GetGitSyncPoint clientConfig (mi_Remote module) (syncPointRequest module branch) of
        Inl err \<Rightarrow>
          if CodeOf err = CodeNotFound then Return (Inr None)
          else Return (Inl (ErrorfW ''get git sync point: %w'' [] err))
      | Inr syncPoint \<Rightarrow>
          (case SyncPoint syncPoint of
             None \<Rightarrow> Panic
           | Some sp \<Rightarrow>
               (case NewHashFromHex (GitCommitHash sp) of
                  Inl err \<Rightarrow>
                    Return (Inl (ErrorfW ''invalid sync point from BSR %q: %w''
                      [ArgString (GitCommitHash sp)] err))
                | Inr hash \<Rightarrow> Return (Inr (Some hash)))))"

subsection \<open>syncGitCommitChecker\<close>

text \<open>
  A \<open>map[string]struct{}\<close> is a set of strings; the nil map is \<open>None\<close> and reads
  as the empty set.
\<close>

fun hashSet :: "string set option \<Rightarrow> string set" where
  "hashSet None = {}"
| "hashSet (Some hashes) = hashes"

text \<open>The loop over the labels of the response, with the set built so far.\<close>

fun syncedHashesLoop ::
  "string set \<Rightarrow> Label list \<Rightarrow> string set \<Rightarrow> (error + string set option) result" where
  "syncedHashesLoop commitHashes [] syncedHashes = Return (Inr (Some syncedHashes))"
| "syncedHashesLoop commitHashes (label # rest) syncedHashes =
     (case LabelName label of
        None \<Rightarrow> Panic
      | Some labelName \<Rightarrow>
          if Name labelName \<notin> commitHashes
          then Return (Inl (Errorf ''received unexpected synced hash %q, expected %v''
                 [ArgString (Name labelName), ArgStringSet commitHashes]))
          else syncedHashesLoop commitHashes rest (insert (Name labelName) syncedHashes))"

definition syncGitCommitChecker ::
  "Config \<Rightarrow> ModuleIdentity \<Rightarrow> string set \<Rightarrow> (error + string set option) result" where
  "syncGitCommitChecker clientConfig module commitHashes =
     (case GetLabelsInNamespace clientConfig (mi_Remote module)
             (labelsRequest module commitHashes) of
        Inl err \<Rightarrow>
          if CodeOf err = CodeNotFound then Return (Inr None)
          else Return (Inl (ErrorfW ''get labels in namespace: %w'' [] err))
      | Inr res \<Rightarrow> syncedHashesLoop commitHashes (Labels res) {})"

subsection \<open>defaultBranchGetter\<close>

definition defaultBranchGetter :: "Config \<Rightarrow> ModuleIdentity \<Rightarrow> (error + string) result" where
  "defaultBranchGetter clientConfig module =
     (case GetRepositoryByFullName clientConfig (mi_Remote module) (repositoryRequest module) of
        Inl err \<Rightarrow>
          if CodeOf err = CodeNotFound then Return (Inl ErrModuleDoesNotExist)
          else Return (Inl (ErrorfW ''get repository by full name %q: %w''
                 [ArgString (mi_IdentityString module)] err))
      | Inr res \<Rightarrow>
          (case resp_Repository res of
             None \<Rightarrow> Panic
           | Some repository \<Rightarrow> Return (Inr (DefaultBranch repository))))"

subsection \<open>syncErrorHandler\<close>

text \<open>
  The logger is the list of the entries written to it. Each hook returns its error and
  the handler as it left it.
\<close>

datatype Field = Stringer string arg | ErrorField "error option"

datatype Entry = Warn string "Field list" | Info string "Field list"

record syncErrorHandler =
  logger :: "Entry list"

definition BuildFailure ::
  "syncErrorHandler \<Rightarrow> Module \<Rightarrow> Commit \<Rightarrow> error option
     \<Rightarrow> error option \<times> syncErrorHandler" where
  "BuildFailure s module commit err =
     (None, s\<lparr>logger := logger s @ [Warn ''module build failure''
        [Stringer ''commit'' (ArgHash (commit_Hash commit)),
         Stringer ''module'' (ArgModule module), ErrorField err]]\<rparr>)"

definition InvalidModuleConfig ::
  "syncErrorHandler \<Rightarrow> Module \<Rightarrow> Commit \<Rightarrow> error option
     \<Rightarrow> error option \<times> syncErrorHandler" where
  "InvalidModuleConfig s module commit err =
     (None, s\<lparr>logger := logger s @ [Warn ''invalid module config''
        [Stringer ''commit'' (ArgHash (commit_Hash commit)),
         Stringer ''module'' (ArgModule module), ErrorField err]]\<rparr>)"

text \<open>\<open>errors.Is\<close> on a Go value of type \<open>error\<close>: nil matches no sentinel.\<close>

fun errors_Is_nilable :: "error option \<Rightarrow> error \<Rightarrow> bool" where
  "errors_Is_nilable None target = False"
| "errors_Is_nilable (Some e) target = errors_Is e target"

definition InvalidSyncPoint ::
  "syncErrorHandler \<Rightarrow> Module \<Rightarrow> string \<Rightarrow> Hash \<Rightarrow> error option
     \<Rightarrow> error option \<times> syncErrorHandler" where
  "InvalidSyncPoint s module branch syncPoint err =
     (if errors_Is_nilable err ErrObjectNotFound
      then (Some (Errorf
              ''last synced commit %s was not found for module %s; did you rebase?''
              [ArgHash syncPoint, ArgModule module]), s)
      else (err, s))"

section \<open>Package reposync: the command\<close>

definition errorFormatFlagName :: string where "errorFormatFlagName = ''error-format''"
definition moduleFlagName :: string where "moduleFlagName = ''module''"
definition createFlagName :: string where "createFlagName = ''create''"
definition createVisibilityFlagName :: string where
  "createVisibilityFlagName = ''create-visibility''"
definition allBranchesFlagName :: string where "allBranchesFlagName = ''all-branches''"

record flags =
  ErrorFormat :: string
  Modules :: "string list"
  Create :: bool
  CreateVisibility :: string
  AllBranches :: bool

datatype Visibility = VISIBILITY_PUBLIC | VISIBILITY_PRIVATE

text \<open>The collaborators as \<open>sync\<close> hands them to the syncer.\<close>

type_synonym Resolver = "ModuleIdentity \<Rightarrow> string \<Rightarrow> (error + Hash option) result"
type_synonym Checker = "ModuleIdentity \<Rightarrow> string set \<Rightarrow> (error + string set option) result"
type_synonym Getter = "ModuleIdentity \<Rightarrow> (error + string) result"

text \<open>
  What the command calls outside the code under study: the flag validators of
  \<open>bufcli\<close>, \<open>git.OpenRepository\<close>, \<open>bufcli.NewConnectClientConfig\<close>,
  \<open>bufmoduleref.ModuleIdentityForString\<close>, \<open>normalpath.Normalize\<close>,
  \<open>git.NewHashFromHex\<close>, and of package bufsync \<open>newSyncableModule\<close>, \<open>newSyncer\<close>
  and the syncer's \<open>Sync\<close>. \<open>env_Sync\<close> is the whole run of the syncer with the sink
  that pushes each ModuleCommit to the registry, for a given \<open>createWithVisibility\<close>.
  \<open>env_Logger\<close> is the container's logger.
\<close>

record ('repo, 'sy) Env =
  env_ValidateErrorFormatFlag :: "string \<Rightarrow> string \<Rightarrow> error option"
  env_VisibilityFlagToVisibility :: "string \<Rightarrow> error + Visibility"
  env_Logger :: "Entry list"
  env_OpenRepository :: "error + 'repo"
  env_NewConnectClientConfig :: "error + Config"
  env_ModuleIdentityForString :: "string \<Rightarrow> error + ModuleIdentity"
  env_Normalize :: "string \<Rightarrow> string"
  env_NewHashFromHex :: "string \<Rightarrow> error + Hash"
  env_newSyncableModule :: "string \<Rightarrow> ModuleIdentity option \<Rightarrow> error + Module"
  env_newSyncer ::
    "'repo \<Rightarrow> syncErrorHandler \<Rightarrow> (Resolver, Checker, Getter) SyncerOption list \<Rightarrow> error + 'sy"
  env_Sync :: "'sy \<Rightarrow> Config \<Rightarrow> string \<Rightarrow> error option"

text \<open>What a run of the command does to the world outside it, in order.\<close>

datatype event =
    Logged Entry
  | EvOpenRepository
  | EvCloseRepository
  | EvNewConnectClientConfig
  | EvNewSyncer
  | EvSync

definition newErrorHandler :: "Entry list \<Rightarrow> syncErrorHandler" where
  "newErrorHandler lg = \<lparr>logger = lg\<rparr>"

text \<open>\<open>strings.IndexRune\<close>: the index of the first occurrence, or -1.\<close>

fun IndexRune :: "string \<Rightarrow> char \<Rightarrow> int" where
  "IndexRune [] r = - 1"
| "IndexRune (c # s) r =
     (if c = r then 0
      else (let i = IndexRune s r in if i = - 1 then - 1 else i + 1))"

text \<open>The loop of \<open>sync\<close> over the module arguments, with the options built so far.\<close>

fun moduleOptions ::
  "('repo, 'sy) Env \<Rightarrow> string list \<Rightarrow> (Resolver, Checker, Getter) SyncerOption list
     \<Rightarrow> error + (Resolver, Checker, Getter) SyncerOption list" where
  "moduleOptions env [] syncerOptions = Inr syncerOptions"
| "moduleOptions env (module # rest) syncerOptions =
     (let colon = IndexRune module CHR '':'' in
      if colon = - 1
      then Inl (InvalidArgumentErrorf ''module %q is missing an identity'' [ArgString module])
      else
        (case env_ModuleIdentityForString env (drop (nat (colon + 1)) module) of
           Inl err \<Rightarrow> Inl (ErrorfW ''module identity: %w'' [] err)
         | Inr moduleIdentityOverride \<Rightarrow>
             (case NewModule (env_newSyncableModule env)
                     (env_Normalize env (take (nat colon) module))
                     (Some moduleIdentityOverride) of
                Inl err \<Rightarrow> Inl (ErrorfW ''prepare module for sync: %w'' [] err)
              | Inr syncModule \<Rightarrow>
                  moduleOptions env rest (syncerOptions @ [SyncerWithModule syncModule]))))"

text \<open>\<open>sync\<close> from the point where the repository is open, up to the deferred close.\<close>

definition syncOpened ::
  "('repo, 'sy) Env \<Rightarrow> 'repo \<Rightarrow> string list \<Rightarrow> string \<Rightarrow> bool \<Rightarrow> event list \<times> error option" where
  "syncOpened env repo modules createWithVisibility allBranches =
     (case env_NewConnectClientConfig env of
        Inl err \<Rightarrow> ([EvNewConnectClientConfig], Some (ErrorfW ''create connect client %w'' [] err))
      | Inr clientConfig \<Rightarrow>
          (let syncerOptions =
                 [SyncerWithResumption (syncPointResolver (env_NewHashFromHex env) clientConfig),
                  SyncerWithGitCommitChecker (syncGitCommitChecker clientConfig),
                  SyncerWithModuleDefaultBranchGetter (defaultBranchGetter clientConfig)];
               syncerOptions =
                 (if allBranches then syncerOptions @ [SyncerWithAllBranches] else syncerOptions)
           in case moduleOptions env modules syncerOptions of
                Inl err \<Rightarrow> ([EvNewConnectClientConfig], Some err)
              | Inr syncerOptions \<Rightarrow>
                  (case env_newSyncer env repo (newErrorHandler (env_Logger env)) syncerOptions of
                     Inl err \<Rightarrow>
                       ([EvNewConnectClientConfig, EvNewSyncer],
                        Some (ErrorfW ''new syncer: %w'' [] err))
                   | Inr syncer \<Rightarrow>
                       ([EvNewConnectClientConfig, EvNewSyncer, EvSync],
                        env_Sync env syncer clientConfig createWithVisibility))))"

definition sync ::
  "('repo, 'sy) Env \<Rightarrow> string list \<Rightarrow> string \<Rightarrow> bool \<Rightarrow> event list \<times> error option" where
  "sync env modules createWithVisibility allBranches =
     (if length modules = 0 then ([Logged (Info ''no modules to sync'' [])], None)
      else
        (case env_OpenRepository env of
           Inl err \<Rightarrow> ([EvOpenRepository], Some (ErrorfW ''open repository: %w'' [] err))
         | Inr repo \<Rightarrow>
             (case syncOpened env repo modules createWithVisibility allBranches of
                (events, err) \<Rightarrow> (EvOpenRepository # events @ [EvCloseRepository], err))))"

definition run :: "('repo, 'sy) Env \<Rightarrow> flags \<Rightarrow> event list \<times> error option" where
  "run env flags =
     (case env_ValidateErrorFormatFlag env (ErrorFormat flags) errorFormatFlagName of
        Some err \<Rightarrow> ([], Some err)
      | None \<Rightarrow>
          if CreateVisibility flags \<noteq> ''''
          then
            (if \<not> Create flags
             then ([], Some (InvalidArgumentErrorf ''Cannot set --%s without --%s.''
                     [ArgString createVisibilityFlagName, ArgString createFlagName]))
             else
               (case env_VisibilityFlagToVisibility env (CreateVisibility flags) of
                  Inl err \<Rightarrow> ([], Some (InvalidArgumentErrorOf err))
                | Inr visibility \<Rightarrow>
                    sync env (Modules flags) (CreateVisibility flags) (AllBranches flags)))
          else if Create flags
          then ([], Some (InvalidArgumentErrorf ''--%s is required if --%s is set.''
                  [ArgString createVisibilityFlagName, ArgString createFlagName]))
          else sync env (Modules flags) (CreateVisibility flags) (AllBranches flags))"

section \<open>Package bufsync: the syncer's run\<close>

text \<open>
  \<open>bufsync.go\<close> declares the syncer's contract: the ModuleCommit handed to the sink,
  the error handler and the types of the collaborators. Every collaborator may answer
  from, and change, the world outside the syncer (the registry, the logger); that world
  is a state \<open>'w\<close> passed through each call. The context argument is dropped, except
  for its cancellation (\<open>dep_ctxErr\<close> below).
\<close>

record 'b ModuleCommit =
  mc_Identity :: ModuleIdentity
  mc_Bucket :: 'b
  mc_Commit :: Commit
  mc_Branch :: string
  mc_Tags :: "string list"

record 'w ErrorHandler =
  eh_InvalidModuleConfig :: "'w \<Rightarrow> Module \<Rightarrow> Commit \<Rightarrow> error option \<Rightarrow> error option \<times> 'w"
  eh_BuildFailure :: "'w \<Rightarrow> Module \<Rightarrow> Commit \<Rightarrow> error option \<Rightarrow> error option \<times> 'w"
  eh_InvalidSyncPoint ::
    "'w \<Rightarrow> Module \<Rightarrow> string \<Rightarrow> Hash \<Rightarrow> error option \<Rightarrow> error option \<times> 'w"

type_synonym ('w, 'b) SyncFunc = "'w \<Rightarrow> 'b ModuleCommit \<Rightarrow> error option \<times> 'w"

type_synonym 'w SyncPointResolver =
  "'w \<Rightarrow> ModuleIdentity option \<Rightarrow> string \<Rightarrow> (error + Hash option) \<times> 'w"

type_synonym 'w SyncedGitCommitChecker =
  "'w \<Rightarrow> ModuleIdentity option \<Rightarrow> string set \<Rightarrow> (error + string set option) \<times> 'w"

type_synonym 'w ModuleDefaultBranchGetter =
  "'w \<Rightarrow> ModuleIdentity option \<Rightarrow> (error + string) \<times> 'w"

type_synonym 'w Syncer =
  "('w SyncPointResolver, 'w SyncedGitCommitChecker, 'w ModuleDefaultBranchGetter) syncer"

text \<open>
  Modelled from the spec: the repository collaborator of section 6, which the syncer
  only reads. It names the checked-out branch and the remote's default branch, lists
  the remote-tracking branches of the one recognised remote, gives for a branch its
  ancestry (the head commit first, back to the root, one commit per step), gives the
  tags that point at a commit, and resolves a hash to a commit or reports it absent.
\<close>

record GitRepository =
  repo_CurrentBranch :: string
  repo_DefaultBranch :: string
  repo_Branches :: "string set"
  repo_Ancestry :: "string \<Rightarrow> Commit list"
  repo_Tags :: "Commit \<Rightarrow> string list"
  repo_Resolve :: "Hash \<Rightarrow> error + Commit"

text \<open>
  Modelled from the spec: what \<open>NewSyncer\<close> is given besides the options (the repository,
  the storage provider, the error handler), the two checks of section 4.4 whose
  contents the spec leaves to the module's configuration format (reading the declared
  configuration of a snapshot, which yields the identity it declares, and validating
  that the module builds), and the caller's context, whose cancellation is an error.
\<close>

record ('w, 'b) deps =
  dep_repo :: GitRepository
  dep_snapshot :: "Commit \<Rightarrow> string \<Rightarrow> error + 'b"
  dep_readConfig :: "'b \<Rightarrow> error + ModuleIdentity"
  dep_build :: "'b \<Rightarrow> error option"
  dep_errorHandler :: "'w ErrorHandler"
  dep_ctxErr :: "'w \<Rightarrow> error option"

text \<open>
  Modelled from the spec: \<open>newSyncer\<close>, the construction of section 9: the options are
  applied in order to a syncer with no module, no collaborator and the single-branch
  mode, and the first option that fails fails the construction.
\<close>

fun applyOptions ::
  "('r, 'c, 'g) SyncerOption list \<Rightarrow> ('r, 'c, 'g) syncer \<Rightarrow> error + ('r, 'c, 'g) syncer" where
  "applyOptions [] s = Inr s"
| "applyOptions (option # options) s =
     (case option s of
        (Some err, s') \<Rightarrow> Inl err
      | (None, s') \<Rightarrow> applyOptions options s')"

definition newSyncer :: "('r, 'c, 'g) SyncerOption list \<Rightarrow> error + ('r, 'c, 'g) syncer" where
  "newSyncer options =
     applyOptions options
       \<lparr>syncer_modulesToSync = [], syncer_syncPointResolver = None,
        syncer_syncedGitCommitChecker = None, syncer_moduleDefaultBranchGetter = None,
        syncer_allBranches = False\<rparr>"

text \<open>
  Modelled from the spec: the branch selector of section 4.1. Single-branch mode selects
  the checked-out branch if it has a remote-tracking counterpart; all-branches mode
  selects every remote-tracking branch, the remote's default branch first and the others
  in lexicographic order.
\<close>

definition branchesToSync :: "GitRepository \<Rightarrow> bool \<Rightarrow> string list" where
  "branchesToSync repo allBranches =
     (if allBranches
      then (if repo_DefaultBranch repo \<in> repo_Branches repo then [repo_DefaultBranch repo] else [])
           @ sorted_list_of_set (repo_Branches repo - {repo_DefaultBranch repo})
      else (if repo_CurrentBranch repo \<in> repo_Branches repo then [repo_CurrentBranch repo] else []))"

text \<open>
  Modelled from the spec: the default-branch check of section 4.1, run before any walk
  when a getter is configured. For each module the registry's default branch is
  compared with the local one; a mismatch is fatal, a module that does not exist in the
  registry is passed over, any other error of the getter is fatal.
\<close>

fun checkDefaultBranches ::
  "'w ModuleDefaultBranchGetter \<Rightarrow> string \<Rightarrow> Module list \<Rightarrow> 'w \<Rightarrow> error option \<times> 'w" where
  "checkDefaultBranches getter localDefault [] w = (None, w)"
| "checkDefaultBranches getter localDefault (module # rest) w =
     (case getter w (module_RemoteIdentity module) of
        (Inl err, w') \<Rightarrow>
          if errors_Is err ErrModuleDoesNotExist
          then checkDefaultBranches getter localDefault rest w'
          else (Some err, w')
      | (Inr registryDefault, w') \<Rightarrow>
          if registryDefault \<noteq> localDefault
          then (Some (Errorf ''default branch mismatch for module %s: local %q, registry %q''
                  [ArgModule module, ArgString localDefault, ArgString registryDefault]), w')
          else checkDefaultBranches getter localDefault rest w')"

text \<open>
  Modelled from the spec: steps (a) and (b) of section 4.3 for one module and branch.
  Without a resolver, or when it knows no sync point, the boundary is the repository
  root (\<open>None\<close>). A sync point that the repository cannot resolve goes to the handler's
  InvalidSyncPoint hook: nil continues from the root, an error aborts. An error of the
  resolver aborts.
\<close>

definition resolveSyncPoint ::
  "('w, 'b) deps \<Rightarrow> 'w Syncer \<Rightarrow> Module \<Rightarrow> string \<Rightarrow> 'w \<Rightarrow> (error + Hash option) \<times> 'w" where
  "resolveSyncPoint d s module branch w =
     (case syncer_syncPointResolver s of
        None \<Rightarrow> (Inr None, w)
      | Some resolver \<Rightarrow>
          (case resolver w (module_RemoteIdentity module) branch of
             (Inl err, w1) \<Rightarrow> (Inl err, w1)
           | (Inr None, w1) \<Rightarrow> (Inr None, w1)
           | (Inr (Some syncPoint), w1) \<Rightarrow>
               (case repo_Resolve (dep_repo d) syncPoint of
                  Inr commit \<Rightarrow> (Inr (Some syncPoint), w1)
                | Inl err \<Rightarrow>
                    (case eh_InvalidSyncPoint (dep_errorHandler d) w1 module branch syncPoint
                            (Some err) of
                       (None, w2) \<Rightarrow> (Inr None, w2)
                     | (Some herr, w2) \<Rightarrow> (Inl herr, w2)))))"

text \<open>
  Modelled from the spec: the walker of section 4.2 applies the boundary to an ancestry
  given head first: the commits strictly newer than the sync point, or all of them back
  to the root.
\<close>

definition commitsSince :: "Hash option \<Rightarrow> Commit list \<Rightarrow> Commit list" where
  "commitsSince boundary ancestry =
     takeWhile (\<lambda>commit. Some (commit_Hash commit) \<noteq> boundary) ancestry"

text \<open>
  Modelled from the spec: step (c) of section 4.3. The checker, when configured, is asked
  which of the candidate hashes are already synced; its error aborts.
\<close>

definition syncedHashes ::
  "'w Syncer \<Rightarrow> Module \<Rightarrow> Commit list \<Rightarrow> 'w \<Rightarrow> (error + string set) \<times> 'w" where
  "syncedHashes s module candidates w =
     (case syncer_syncedGitCommitChecker s of
        None \<Rightarrow> (Inr {}, w)
      | Some checker \<Rightarrow>
          (case checker w (module_RemoteIdentity module)
                  (set (map (\<lambda>commit. Hex (commit_Hash commit)) candidates)) of
             (Inl err, w1) \<Rightarrow> (Inl err, w1)
           | (Inr synced, w1) \<Rightarrow> (Inr (hashSet synced), w1)))"

text \<open>
  Modelled from the spec: the reconciliation of section 4.3 for the modules of one
  branch, in registration order, done once before the branch is walked. Each module gets
  the hashes of the commits to deliver for it: those newer than its boundary and not
  reported synced.
\<close>

fun planModules ::
  "('w, 'b) deps \<Rightarrow> 'w Syncer \<Rightarrow> string \<Rightarrow> Commit list \<Rightarrow> Module list \<Rightarrow> 'w
     \<Rightarrow> (error + (Module \<times> Hash list) list) \<times> 'w" where
  "planModules d s branch ancestry [] w = (Inr [], w)"
| "planModules d s branch ancestry (module # rest) w =
     (case resolveSyncPoint d s module branch w of
        (Inl err, w1) \<Rightarrow> (Inl err, w1)
      | (Inr boundary, w1) \<Rightarrow>
          (case syncedHashes s module (commitsSince boundary ancestry) w1 of
             (Inl err, w2) \<Rightarrow> (Inl err, w2)
           | (Inr synced, w2) \<Rightarrow>
               (case planModules d s branch ancestry rest w2 of
                  (Inl err, w3) \<Rightarrow> (Inl err, w3)
                | (Inr plans, w3) \<Rightarrow>
                    (Inr ((module,
                           map commit_Hash
                             (filter (\<lambda>commit. Hex (commit_Hash commit) \<notin> synced)
                                (commitsSince boundary ancestry))) # plans), w3))))"

text \<open>
  Modelled from the spec: the materializer of section 4.4 for one commit and module. It
  returns the error that aborts the sync, if any, the ModuleCommits handed to the sink
  (none or one) and the world. A failure of the storage provider is fatal; a missing or
  malformed configuration and a build failure go to the handler, whose nil skips the
  commit for this module; the sink's error is fatal.
\<close>

definition materialize ::
  "('w, 'b) deps \<Rightarrow> ('w, 'b) SyncFunc \<Rightarrow> string \<Rightarrow> Commit \<Rightarrow> Module \<Rightarrow> 'w
     \<Rightarrow> error option \<times> 'b ModuleCommit list \<times> 'w" where
  "materialize d syncFunc branch commit module w =
     (case dep_snapshot d commit (module_Dir module) of
        Inl err \<Rightarrow> (Some err, [], w)
      | Inr bucket \<Rightarrow>
          (case dep_readConfig d bucket of
             Inl err \<Rightarrow>
               (case eh_InvalidModuleConfig (dep_errorHandler d) w module commit (Some err) of
                  (herr, w1) \<Rightarrow> (herr, [], w1))
           | Inr declared \<Rightarrow>
               (case dep_build d bucket of
                  Some err \<Rightarrow>
                    (case eh_BuildFailure (dep_errorHandler d) w module commit (Some err) of
                       (herr, w1) \<Rightarrow> (herr, [], w1))
                | None \<Rightarrow>
                    (let moduleCommit =
                       \<lparr>mc_Identity =
                          (case module_RemoteIdentity module of
                             Some override \<Rightarrow> override
                           | None \<Rightarrow> declared),
                        mc_Bucket = bucket, mc_Commit = commit, mc_Branch = branch,
                        mc_Tags = remdups (repo_Tags (dep_repo d) commit)\<rparr>
                     in case syncFunc w moduleCommit of
                          (serr, w1) \<Rightarrow> (serr, [moduleCommit], w1)))))"

text \<open>
  Modelled from the spec: section 5, within a commit the modules are processed in
  registration order, cancellation being checked at the start of each iteration.
\<close>

fun syncModulesAtCommit ::
  "('w, 'b) deps \<Rightarrow> ('w, 'b) SyncFunc \<Rightarrow> string \<Rightarrow> Commit \<Rightarrow> (Module \<times> Hash list) list \<Rightarrow> 'w
     \<Rightarrow> error option \<times> 'b ModuleCommit list \<times> 'w" where
  "syncModulesAtCommit d syncFunc branch commit [] w = (None, [], w)"
| "syncModulesAtCommit d syncFunc branch commit ((module, toDeliver) # rest) w =
     (case dep_ctxErr d w of
        Some err \<Rightarrow> (Some err, [], w)
      | None \<Rightarrow>
          if commit_Hash commit \<notin> set toDeliver
          then syncModulesAtCommit d syncFunc branch commit rest w
          else
            (case materialize d syncFunc branch commit module w of
               (Some err, delivered, w1) \<Rightarrow> (Some err, delivered, w1)
             | (None, delivered, w1) \<Rightarrow>
                 (case syncModulesAtCommit d syncFunc branch commit rest w1 of
                    (err, delivered', w2) \<Rightarrow> (err, delivered @ delivered', w2))))"

text \<open>
  Modelled from the spec: section 5, within a branch the commits are processed one at a
  time in delivery order.
\<close>

fun syncCommits ::
  "('w, 'b) deps \<Rightarrow> ('w, 'b) SyncFunc \<Rightarrow> string \<Rightarrow> Commit list \<Rightarrow> (Module \<times> Hash list) list \<Rightarrow> 'w
     \<Rightarrow> error option \<times> 'b ModuleCommit list \<times> 'w" where
  "syncCommits d syncFunc branch [] plans w = (None, [], w)"
| "syncCommits d syncFunc branch (commit # commits) plans w =
     (case syncModulesAtCommit d syncFunc branch commit plans w of
        (Some err, delivered, w1) \<Rightarrow> (Some err, delivered, w1)
      | (None, delivered, w1) \<Rightarrow>
          (case syncCommits d syncFunc branch commits plans w1 of
             (err, delivered', w2) \<Rightarrow> (err, delivered @ delivered', w2)))"

text \<open>
  Modelled from the spec: the walk of one branch. The boundaries and the synced sets are
  fetched once, at the start; the delivery order is the reverse of the ancestry, the
  oldest commit first (section 4.2).
\<close>

definition syncBranch ::
  "('w, 'b) deps \<Rightarrow> 'w Syncer \<Rightarrow> ('w, 'b) SyncFunc \<Rightarrow> string \<Rightarrow> 'w
     \<Rightarrow> error option \<times> 'b ModuleCommit list \<times> 'w" where
  "syncBranch d s syncFunc branch w =
     (case planModules d s branch (repo_Ancestry (dep_repo d) branch)
             (syncer_modulesToSync s) w of
        (Inl err, w1) \<Rightarrow> (Some err, [], w1)
      | (Inr plans, w1) \<Rightarrow>
          syncCommits d syncFunc branch (rev (repo_Ancestry (dep_repo d) branch)) plans w1)"

text \<open>
  Modelled from the spec: section 5, one branch is walked to completion before the next
  begins.
\<close>

fun syncBranches ::
  "('w, 'b) deps \<Rightarrow> 'w Syncer \<Rightarrow> ('w, 'b) SyncFunc \<Rightarrow> string list \<Rightarrow> 'w
     \<Rightarrow> error option \<times> 'b ModuleCommit list \<times> 'w" where
  "syncBranches d s syncFunc [] w = (None, [], w)"
| "syncBranches d s syncFunc (branch # branches) w =
     (case syncBranch d s syncFunc branch w of
        (Some err, delivered, w1) \<Rightarrow> (Some err, delivered, w1)
      | (None, delivered, w1) \<Rightarrow>
          (case syncBranches d s syncFunc branches w1 of
             (err, delivered', w2) \<Rightarrow> (err, delivered @ delivered', w2)))"

text \<open>
  Modelled from the spec: \<open>Sync\<close>. The default-branch check, then the branches in the
  order of the selector. The result is the run's terminal error, the ModuleCommits
  handed to the sink in order, and the world after the run.
\<close>

definition Sync ::
  "('w, 'b) deps \<Rightarrow> 'w Syncer \<Rightarrow> ('w, 'b) SyncFunc \<Rightarrow> 'w
     \<Rightarrow> error option \<times> 'b ModuleCommit list \<times> 'w" where
  "Sync d s syncFunc w =
     (case (case syncer_moduleDefaultBranchGetter s of
              None \<Rightarrow> (None, w)
            | Some getter \<Rightarrow>
                checkDefaultBranches getter (repo_DefaultBranch (dep_repo d))
                  (syncer_modulesToSync s) w) of
        (Some err, w1) \<Rightarrow> (Some err, [], w1)
      | (None, w1) \<Rightarrow>
          syncBranches d s syncFunc
            (branchesToSync (dep_repo d) (syncer_allBranches s)) w1)"

text \<open>
  Modelled from the spec: ancestry. A commit of the repository is one its hash resolves
  to; \<open>p\<close> is a parent of \<open>c\<close> when both are commits of the repository and \<open>c\<close> lists
  the hash of \<open>p\<close> among its parents; an ancestor is a parent, or a parent's ancestor.
\<close>

definition parent_rel :: "GitRepository \<Rightarrow> (Commit \<times> Commit) set" where
  "parent_rel repo =
     {(p, c). repo_Resolve repo (commit_Hash c) = Inr c
            \<and> repo_Resolve repo (commit_Hash p) = Inr p
            \<and> commit_Hash p \<in> set (commit_Parents c)}"

definition ancestor :: "GitRepository \<Rightarrow> Commit \<Rightarrow> Commit \<Rightarrow> bool" where
  "ancestor repo a b \<longleftrightarrow> (a, b) \<in> (parent_rel repo)\<^sup>+"

text \<open>
  Modelled from the spec: what the repository collaborator owes the syncer. The commit
  graph has no cycle (hashes are content addresses), and in the ancestry of every branch
  each commit is followed by one of its parents.
\<close>

definition well_formed :: "GitRepository \<Rightarrow> bool" where
  "well_formed repo \<longleftrightarrow>
     acyclic (parent_rel repo)
     \<and> (\<forall>branch. successively (\<lambda>c p. (p, c) \<in> parent_rel repo) (repo_Ancestry repo branch))"

text \<open>
  Two deliveries are in order when the commit of the first is the commit of the second
  or one of its ancestors; the order of a run only binds deliveries of one branch.
\<close>

definition in_order :: "GitRepository \<Rightarrow> 'b ModuleCommit \<Rightarrow> 'b ModuleCommit \<Rightarrow> bool" where
  "in_order repo x y \<longleftrightarrow> mc_Commit x = mc_Commit y \<or> ancestor repo (mc_Commit x) (mc_Commit y)"

definition branch_order :: "GitRepository \<Rightarrow> 'b ModuleCommit \<Rightarrow> 'b ModuleCommit \<Rightarrow> bool" where
  "branch_order repo x y \<longleftrightarrow> (mc_Branch x = mc_Branch y \<longrightarrow> in_order repo x y)"

section \<open>Examples\<close>

definition petapis :: ModuleIdentity where
  "petapis = \<lparr>mi_Remote = ''buf.build'', mi_Owner = ''acme'', mi_Repository = ''petapis'',
     mi_IdentityString = ''buf.build/acme/petapis''\<rparr>"

definition proto_module :: Module where
  "proto_module = \<lparr>module_Dir = ''proto'', module_RemoteIdentity = Some petapis,
     module_String = ''proto:buf.build/acme/petapis''\<rparr>"

definition proto_module_again :: Module where
  "proto_module_again = \<lparr>module_Dir = ''./proto'', module_RemoteIdentity = Some petapis,
     module_String = ''proto:buf.build/acme/petapis''\<rparr>"

definition one_module_syncer :: "(unit, unit, unit) syncer" where
  "one_module_syncer = \<lparr>syncer_modulesToSync = [proto_module],
     syncer_syncPointResolver = None, syncer_syncedGitCommitChecker = None,
     syncer_moduleDefaultBranchGetter = None, syncer_allBranches = False\<rparr>"

subsection \<open>Registries\<close>

definition registry_not_created :: Config where
  "registry_not_created =
     \<lparr>GetGitSyncPoint = (\<lambda>remote req. Inl (ConnectError CodeNotFound ''not found'')),
      GetLabelsInNamespace = (\<lambda>remote req. Inl (ConnectError CodeNotFound ''not found'')),
      GetRepositoryByFullName = (\<lambda>remote req. Inl (ConnectError CodeNotFound ''not found''))\<rparr>"

definition registry_down :: Config where
  "registry_down =
     \<lparr>GetGitSyncPoint = (\<lambda>remote req. Inl (ConnectError CodeUnavailable ''down'')),
      GetLabelsInNamespace = (\<lambda>remote req. Inl (ConnectError CodeUnavailable ''down'')),
      GetRepositoryByFullName = (\<lambda>remote req. Inl (ConnectError CodeUnavailable ''down''))\<rparr>"

definition label_of :: "string \<Rightarrow> Label" where
  "label_of n = \<lparr>LabelName = Some \<lparr>Name = n\<rparr>\<rparr>"

definition registry_synced :: Config where
  "registry_synced =
     \<lparr>GetGitSyncPoint = (\<lambda>remote req.
        Inr \<lparr>SyncPoint = Some \<lparr>GitCommitHash = ''c2'', BsrCommitName = ''bsr2''\<rparr>\<rparr>),
      GetLabelsInNamespace = (\<lambda>remote req. Inr \<lparr>Labels = [label_of ''c1'', label_of ''c2'']\<rparr>),
      GetRepositoryByFullName = (\<lambda>remote req.
        Inr \<lparr>resp_Repository = Some \<lparr>DefaultBranch = ''main''\<rparr>\<rparr>)\<rparr>"

definition registry_garbled :: Config where
  "registry_garbled =
     \<lparr>GetGitSyncPoint = (\<lambda>remote req.
        Inr \<lparr>SyncPoint = Some \<lparr>GitCommitHash = ''zz'', BsrCommitName = ''bsr2''\<rparr>\<rparr>),
      GetLabelsInNamespace = (\<lambda>remote req. Inr \<lparr>Labels = [label_of ''c1'', label_of ''zz'']\<rparr>),
      GetRepositoryByFullName = (\<lambda>remote req. Inr \<lparr>resp_Repository = None\<rparr>)\<rparr>"

text \<open>A stand-in for \<open>git.NewHashFromHex\<close> that accepts hex digits only.\<close>

definition hexOnly :: "string \<Rightarrow> error + Hash" where
  "hexOnly s =
     (if set s \<subseteq> set ''0123456789abcdef'' then Inr (Hash s)
      else Inl (OtherError ''invalid byte''))"

definition commit_c1 :: Commit where
  "commit_c1 = \<lparr>commit_Hash = Hash ''c1'', commit_Parents = [],
     commit_Author = \<lparr>ident_Name = ''a'', ident_Email = ''a@x'', ident_Timestamp = 1\<rparr>,
     commit_Committer = \<lparr>ident_Name = ''a'', ident_Email = ''a@x'', ident_Timestamp = 1\<rparr>\<rparr>"

definition quiet_handler :: syncErrorHandler where
  "quiet_handler = \<lparr>logger = []\<rparr>"

subsection \<open>An environment of the command\<close>

definition example_env :: "(unit, unit) Env" where
  "example_env =
     \<lparr>env_ValidateErrorFormatFlag = (\<lambda>f name.
        if f = ''text'' \<or> f = ''json'' then None
        else Some (InvalidArgumentErrorf ''--%s: invalid format: %q'' [ArgString name, ArgString f])),
      env_VisibilityFlagToVisibility = (\<lambda>v.
        if v = ''public'' then Inr VISIBILITY_PUBLIC
        else if v = ''private'' then Inr VISIBILITY_PRIVATE
        else Inl (Errorf ''invalid visibility: %s'' [ArgString v])),
      env_Logger = [],
      env_OpenRepository = Inr (),
      env_NewConnectClientConfig = Inr registry_synced,
      env_ModuleIdentityForString = (\<lambda>s.
        if s = ''buf.build/acme/petapis'' then Inr petapis
        else Inl (Errorf ''malformed module identity %q'' [ArgString s])),
      env_Normalize = (\<lambda>p. p),
      env_NewHashFromHex = hexOnly,
      env_newSyncableModule = (\<lambda>dir identity.
        Inr \<lparr>module_Dir = dir, module_RemoteIdentity = identity,
             module_String = dir @ '':'' @
               (case identity of None \<Rightarrow> [] | Some i \<Rightarrow> mi_IdentityString i)\<rparr>),
      env_newSyncer = (\<lambda>repo handler syncerOptions. Inr ()),
      env_Sync = (\<lambda>syncer clientConfig createWithVisibility. None)\<rparr>"

definition example_flags :: "bool \<Rightarrow> string \<Rightarrow> flags" where
  "example_flags create visibility =
     \<lparr>ErrorFormat = ''text'', Modules = [''proto:buf.build/acme/petapis''],
      Create = create, CreateVisibility = visibility, AllBranches = False\<rparr>"

subsection \<open>A repository and a run of the syncer\<close>

text \<open>
  The scenario of the spec's section 8: commits c1, c2, c3 on branch main, the module
  proto with an identity override, a registry that remembers what the sink pushed, and
  the command's default error handler.
\<close>

definition commit_c2 :: Commit where
  "commit_c2 = \<lparr>commit_Hash = Hash ''c2'', commit_Parents = [Hash ''c1''],
     commit_Author = \<lparr>ident_Name = ''a'', ident_Email = ''a@x'', ident_Timestamp = 2\<rparr>,
     commit_Committer = \<lparr>ident_Name = ''a'', ident_Email = ''a@x'', ident_Timestamp = 2\<rparr>\<rparr>"

definition commit_c3 :: Commit where
  "commit_c3 = \<lparr>commit_Hash = Hash ''c3'', commit_Parents = [Hash ''c2''],
     commit_Author = \<lparr>ident_Name = ''b'', ident_Email = ''b@x'', ident_Timestamp = 3\<rparr>,
     commit_Committer = \<lparr>ident_Name = ''a'', ident_Email = ''a@x'', ident_Timestamp = 3\<rparr>\<rparr>"

definition example_repo :: GitRepository where
  "example_repo =
     \<lparr>repo_CurrentBranch = ''main'', repo_DefaultBranch = ''main'',
      repo_Branches = {''main''},
      repo_Ancestry = (\<lambda>branch.
        if branch = ''main'' then [commit_c3, commit_c2, commit_c1] else []),
      repo_Tags = (\<lambda>commit. if commit_Hash commit = Hash ''c3'' then [''v1''] else []),
      repo_Resolve = (\<lambda>h.
        if h = Hash ''c1'' then Inr commit_c1
        else if h = Hash ''c2'' then Inr commit_c2
        else if h = Hash ''c3'' then Inr commit_c3
        else Inl ErrObjectNotFound)\<rparr>"

record world =
  w_synced :: "string list"
  w_handler :: syncErrorHandler

definition default_handler :: "world ErrorHandler" where
  "default_handler =
     \<lparr>eh_InvalidModuleConfig = (\<lambda>w module commit err.
        case InvalidModuleConfig (w_handler w) module commit err of
          (r, h) \<Rightarrow> (r, w\<lparr>w_handler := h\<rparr>)),
      eh_BuildFailure = (\<lambda>w module commit err.
        case BuildFailure (w_handler w) module commit err of
          (r, h) \<Rightarrow> (r, w\<lparr>w_handler := h\<rparr>)),
      eh_InvalidSyncPoint = (\<lambda>w module branch syncPoint err.
        case InvalidSyncPoint (w_handler w) module branch syncPoint err of
          (r, h) \<Rightarrow> (r, w\<lparr>w_handler := h\<rparr>))\<rparr>"

definition example_deps :: "(world, string) deps" where
  "example_deps =
     \<lparr>dep_repo = example_repo,
      dep_snapshot = (\<lambda>commit dir. Inr (dir @ ''@'' @ Hex (commit_Hash commit))),
      dep_readConfig = (\<lambda>bucket. Inr petapis),
      dep_build = (\<lambda>bucket. None),
      dep_errorHandler = default_handler,
      dep_ctxErr = (\<lambda>w. None)\<rparr>"

definition example_syncer :: "world Syncer" where
  "example_syncer =
     \<lparr>syncer_modulesToSync = [proto_module],
      syncer_syncPointResolver = Some (\<lambda>w identity branch.
        (Inr (if w_synced w = [] then None else Some (Hash (last (w_synced w)))), w)),
      syncer_syncedGitCommitChecker = Some (\<lambda>w identity candidates. (Inr (Some {}), w)),
      syncer_moduleDefaultBranchGetter = Some (\<lambda>w identity. (Inr ''main'', w)),
      syncer_allBranches = False\<rparr>"

definition example_sink :: "(world, string) SyncFunc" where
  "example_sink w moduleCommit =
     (None, w\<lparr>w_synced := w_synced w @ [Hex (commit_Hash (mc_Commit moduleCommit))]\<rparr>)"

definition delivery :: "Commit \<Rightarrow> string list \<Rightarrow> string ModuleCommit" where
  "delivery commit tags =
     \<lparr>mc_Identity = petapis, mc_Bucket = ''proto@'' @ Hex (commit_Hash commit),
      mc_Commit = commit, mc_Branch = ''main'', mc_Tags = tags\<rparr>"

section \<open>Registering modules\<close>

lemma duplicateModule_found:
  "existing \<in> set ms \<Longrightarrow> module_String existing = module_String m \<Longrightarrow>
   duplicateModule ms m = Some (Errorf ''duplicate module %s'' [ArgModule m])"
  by (induction ms) auto

lemma duplicateModule_fresh:
  "module_String m \<notin> module_String ` set ms \<Longrightarrow> duplicateModule ms m = None"
  by (induction ms) auto

lemma SyncerWithModule_fresh:
  "module_String m \<notin> module_String ` set (syncer_modulesToSync s) \<Longrightarrow>
   SyncerWithModule m s = (None, s\<lparr>syncer_modulesToSync := syncer_modulesToSync s @ [m]\<rparr>)"
  by (simp add: SyncerWithModule_def duplicateModule_fresh)

text \<open>
  C2. Registering a module whose String form equals that of a module already registered
  is rejected by the option itself: for every syncer configuration \<open>s\<close>,
  \<open>SyncerWithModule m\<close> returns the error "duplicate module" and leaves the
  configuration as it was. The option reads only the list of registered modules, so the
  rejection happens while the syncer is configured, with no commit visited.
\<close>

theorem SyncerWithModule_duplicate_rejected:
  assumes "existing \<in> set (syncer_modulesToSync s)"
    and "module_String existing = module_String m"
  shows "SyncerWithModule m s = (Some (Errorf ''duplicate module %s'' [ArgModule m]), s)"
  using duplicateModule_found [OF assms] by (simp add: SyncerWithModule_def)

theorem SyncerWithModule_duplicate_rejected_witness:
  "proto_module \<in> set (syncer_modulesToSync one_module_syncer)
   \<and> module_String proto_module = module_String proto_module_again
   \<and> proto_module \<noteq> proto_module_again
   \<and> SyncerWithModule proto_module_again one_module_syncer =
       (Some (Errorf ''duplicate module %s'' [ArgModule proto_module_again]), one_module_syncer)"
proof -
  have a: "proto_module \<in> set (syncer_modulesToSync one_module_syncer)"
    by (simp add: one_module_syncer_def)
  have b: "module_String proto_module = module_String proto_module_again"
    by (simp add: proto_module_def proto_module_again_def)
  have c: "proto_module \<noteq> proto_module_again"
    by (simp add: proto_module_def proto_module_again_def)
  show ?thesis
    using a b c SyncerWithModule_duplicate_rejected [OF a b] by simp
qed

section \<open>The synced-git-commit checker\<close>

lemma syncedHashesLoop_subset:
  "syncedHashesLoop hs ls acc = Return (Inr r) \<Longrightarrow> acc \<subseteq> hs \<Longrightarrow> hashSet r \<subseteq> hs"
  by (induction hs ls acc rule: syncedHashesLoop.induct) (auto split: option.splits if_splits)

lemma syncedHashesLoop_no_success:
  "\<exists>l \<in> set ls. \<exists>n. LabelName l = Some n \<and> Name n \<notin> hs \<Longrightarrow>
   syncedHashesLoop hs ls acc \<noteq> Return (Inr r)"
  by (induction hs ls acc rule: syncedHashesLoop.induct) (auto split: option.splits if_splits)

lemma syncedHashesLoop_unexpected:
  "\<forall>l \<in> set ls. LabelName l \<noteq> None \<Longrightarrow>
   \<exists>l \<in> set ls. \<exists>n. LabelName l = Some n \<and> Name n \<notin> hs \<Longrightarrow>
   \<exists>bad. bad \<notin> hs \<and> syncedHashesLoop hs ls acc =
      Return (Inl (Errorf ''received unexpected synced hash %q, expected %v''
        [ArgString bad, ArgStringSet hs]))"
  by (induction hs ls acc rule: syncedHashesLoop.induct) (auto split: option.splits if_splits)

lemma syncGitCommitChecker_subset:
  "syncGitCommitChecker clientConfig m hs = Return (Inr synced) \<Longrightarrow> hashSet synced \<subseteq> hs"
  unfolding syncGitCommitChecker_def
  by (auto split: sum.splits if_splits dest: syncedHashesLoop_subset)

text \<open>
  C3. For every registry, module identity and candidate set \<open>hs\<close>: whatever set the
  checker returns without error is a subset of \<open>hs\<close>; when a label of the response
  names a hash outside \<open>hs\<close> the checker does not return a set, and (every label
  carrying its name) it returns the error "received unexpected synced hash"; when the
  registry answers NotFound it returns the nil map with a nil error; any other transport
  error is returned, wrapped, as the checker's error, which by the contract of
  \<open>SyncedGitCommitChecker\<close> aborts the sync.
\<close>

theorem syncGitCommitChecker_subset_of_candidates:
  "(\<forall>synced. syncGitCommitChecker clientConfig m hs = Return (Inr synced)
        \<longrightarrow> hashSet synced \<subseteq> hs)
   \<and> (\<forall>res. GetLabelsInNamespace clientConfig (mi_Remote m) (labelsRequest m hs) = Inr res
          \<and> (\<exists>l \<in> set (Labels res). \<exists>n. LabelName l = Some n \<and> Name n \<notin> hs)
        \<longrightarrow> (\<forall>synced. syncGitCommitChecker clientConfig m hs \<noteq> Return (Inr synced))
          \<and> ((\<forall>l \<in> set (Labels res). LabelName l \<noteq> None) \<longrightarrow>
               (\<exists>bad. bad \<notin> hs \<and> syncGitCommitChecker clientConfig m hs =
                  Return (Inl (Errorf ''received unexpected synced hash %q, expected %v''
                    [ArgString bad, ArgStringSet hs])))))
   \<and> (\<forall>err. GetLabelsInNamespace clientConfig (mi_Remote m) (labelsRequest m hs) = Inl err
          \<and> CodeOf err = CodeNotFound
        \<longrightarrow> syncGitCommitChecker clientConfig m hs = Return (Inr None))
   \<and> (\<forall>err. GetLabelsInNamespace clientConfig (mi_Remote m) (labelsRequest m hs) = Inl err
          \<and> CodeOf err \<noteq> CodeNotFound
        \<longrightarrow> syncGitCommitChecker clientConfig m hs =
              Return (Inl (ErrorfW ''get labels in namespace: %w'' [] err)))"
proof (intro conjI allI impI)
  fix synced
  assume "syncGitCommitChecker clientConfig m hs = Return (Inr synced)"
  then show "hashSet synced \<subseteq> hs" by (rule syncGitCommitChecker_subset)
next
  fix res synced
  assume "GetLabelsInNamespace clientConfig (mi_Remote m) (labelsRequest m hs) = Inr res
          \<and> (\<exists>l \<in> set (Labels res). \<exists>n. LabelName l = Some n \<and> Name n \<notin> hs)"
  then show "syncGitCommitChecker clientConfig m hs \<noteq> Return (Inr synced)"
    by (simp add: syncGitCommitChecker_def syncedHashesLoop_no_success)
next
  fix res
  assume "GetLabelsInNamespace clientConfig (mi_Remote m) (labelsRequest m hs) = Inr res
          \<and> (\<exists>l \<in> set (Labels res). \<exists>n. LabelName l = Some n \<and> Name n \<notin> hs)"
    and "\<forall>l \<in> set (Labels res). LabelName l \<noteq> None"
  then show "\<exists>bad. bad \<notin> hs \<and> syncGitCommitChecker clientConfig m hs =
      Return (Inl (Errorf ''received unexpected synced hash %q, expected %v''
        [ArgString bad, ArgStringSet hs]))"
    using syncedHashesLoop_unexpected [of "Labels res" hs "{}"]
    by (simp add: syncGitCommitChecker_def)
next
  fix err
  assume "GetLabelsInNamespace clientConfig (mi_Remote m) (labelsRequest m hs) = Inl err
          \<and> CodeOf err = CodeNotFound"
  then show "syncGitCommitChecker clientConfig m hs = Return (Inr None)"
    by (simp add: syncGitCommitChecker_def)
next
  fix err
  assume "GetLabelsInNamespace clientConfig (mi_Remote m) (labelsRequest m hs) = Inl err
          \<and> CodeOf err \<noteq> CodeNotFound"
  then show "syncGitCommitChecker clientConfig m hs =
      Return (Inl (ErrorfW ''get labels in namespace: %w'' [] err))"
    by (simp add: syncGitCommitChecker_def)
qed

theorem syncGitCommitChecker_subset_of_candidates_witness:
  "syncGitCommitChecker registry_synced petapis {''c1'', ''c2'', ''c3''}
     = Return (Inr (Some {''c1'', ''c2''}))
   \<and> hashSet (Some {''c1'', ''c2''}) \<subseteq> {''c1'', ''c2'', ''c3''}
   \<and> syncGitCommitChecker registry_garbled petapis {''c1'', ''c2'', ''c3''}
     = Return (Inl (Errorf ''received unexpected synced hash %q, expected %v''
         [ArgString ''zz'', ArgStringSet {''c1'', ''c2'', ''c3''}]))
   \<and> syncGitCommitChecker registry_not_created petapis {''c1'', ''c2'', ''c3''}
     = Return (Inr None)
   \<and> syncGitCommitChecker registry_down petapis {''c1'', ''c2'', ''c3''}
     = Return (Inl (ErrorfW ''get labels in namespace: %w'' []
         (ConnectError CodeUnavailable ''down'')))"
proof -
  let ?hs = "{''c1'', ''c2'', ''c3''}"
  have ok: "syncGitCommitChecker registry_synced petapis ?hs = Return (Inr (Some {''c1'', ''c2''}))"
    by (simp add: syncGitCommitChecker_def registry_synced_def label_of_def insert_commute)
  have sub: "hashSet (Some {''c1'', ''c2''}) \<subseteq> ?hs"
    using syncGitCommitChecker_subset_of_candidates [of registry_synced petapis ?hs] ok
    by blast
  have bad: "syncGitCommitChecker registry_garbled petapis ?hs
     = Return (Inl (Errorf ''received unexpected synced hash %q, expected %v''
         [ArgString ''zz'', ArgStringSet ?hs]))"
    by (simp add: syncGitCommitChecker_def registry_garbled_def label_of_def)
  have nf: "syncGitCommitChecker registry_not_created petapis ?hs = Return (Inr None)"
    using syncGitCommitChecker_subset_of_candidates [of registry_not_created petapis ?hs]
    by (simp add: registry_not_created_def)
  have down: "syncGitCommitChecker registry_down petapis ?hs
     = Return (Inl (ErrorfW ''get labels in namespace: %w'' []
         (ConnectError CodeUnavailable ''down'')))"
    using syncGitCommitChecker_subset_of_candidates [of registry_down petapis ?hs]
    by (simp add: registry_down_def)
  show ?thesis using ok sub bad nf down by blast
qed

section \<open>The sync point resolver\<close>

text \<open>
  C4. For every registry, module identity and branch: the resolver returns a nil hash
  with a nil error exactly when the registry answers NotFound; a sync point whose hash
  \<open>NewHashFromHex\<close> refuses yields the error "invalid sync point from BSR", and any
  other transport error yields the error "get git sync point". Both are non-nil errors
  of the resolver, which by the contract of \<open>SyncPointResolver\<close> abort the sync. A sync
  point with a hash that \<open>NewHashFromHex\<close> accepts is returned as that hash.
\<close>

theorem syncPointResolver_nil_iff_not_found:
  "(syncPointResolver NewHashFromHex clientConfig m branch = Return (Inr None)
      \<longleftrightarrow> (\<exists>err. GetGitSyncPoint clientConfig (mi_Remote m) (syncPointRequest m branch) = Inl err
                 \<and> CodeOf err = CodeNotFound))
   \<and> (\<forall>res sp err.
        GetGitSyncPoint clientConfig (mi_Remote m) (syncPointRequest m branch) = Inr res
          \<and> SyncPoint res = Some sp \<and> NewHashFromHex (GitCommitHash sp) = Inl err
        \<longrightarrow> syncPointResolver NewHashFromHex clientConfig m branch =
              Return (Inl (ErrorfW ''invalid sync point from BSR %q: %w''
                [ArgString (GitCommitHash sp)] err)))
   \<and> (\<forall>err. GetGitSyncPoint clientConfig (mi_Remote m) (syncPointRequest m branch) = Inl err
          \<and> CodeOf err \<noteq> CodeNotFound
        \<longrightarrow> syncPointResolver NewHashFromHex clientConfig m branch =
              Return (Inl (ErrorfW ''get git sync point: %w'' [] err)))
   \<and> (\<forall>res sp hash.
        GetGitSyncPoint clientConfig (mi_Remote m) (syncPointRequest m branch) = Inr res
          \<and> SyncPoint res = Some sp \<and> NewHashFromHex (GitCommitHash sp) = Inr hash
        \<longrightarrow> syncPointResolver NewHashFromHex clientConfig m branch = Return (Inr (Some hash)))"
  unfolding syncPointResolver_def
  by (auto split: sum.splits option.splits)

theorem syncPointResolver_nil_iff_not_found_witness:
  "syncPointResolver hexOnly registry_not_created petapis ''main'' = Return (Inr None)
   \<and> syncPointResolver hexOnly registry_garbled petapis ''main'' =
       Return (Inl (ErrorfW ''invalid sync point from BSR %q: %w'' [ArgString ''zz'']
         (OtherError ''invalid byte'')))
   \<and> syncPointResolver hexOnly registry_down petapis ''main'' =
       Return (Inl (ErrorfW ''get git sync point: %w'' []
         (ConnectError CodeUnavailable ''down'')))
   \<and> syncPointResolver hexOnly registry_synced petapis ''main'' = Return (Inr (Some (Hash ''c2'')))"
proof -
  have nf: "syncPointResolver hexOnly registry_not_created petapis ''main'' = Return (Inr None)"
    using syncPointResolver_nil_iff_not_found [of hexOnly registry_not_created petapis "''main''"]
    by (simp add: registry_not_created_def)
  have garbled: "syncPointResolver hexOnly registry_garbled petapis ''main'' =
       Return (Inl (ErrorfW ''invalid sync point from BSR %q: %w'' [ArgString ''zz'']
         (OtherError ''invalid byte'')))"
    using syncPointResolver_nil_iff_not_found [of hexOnly registry_garbled petapis "''main''"]
    by (simp add: registry_garbled_def hexOnly_def)
  have down: "syncPointResolver hexOnly registry_down petapis ''main'' =
       Return (Inl (ErrorfW ''get git sync point: %w'' []
         (ConnectError CodeUnavailable ''down'')))"
    using syncPointResolver_nil_iff_not_found [of hexOnly registry_down petapis "''main''"]
    by (simp add: registry_down_def)
  have ok: "syncPointResolver hexOnly registry_synced petapis ''main''
       = Return (Inr (Some (Hash ''c2'')))"
    using syncPointResolver_nil_iff_not_found [of hexOnly registry_synced petapis "''main''"]
    by (simp add: registry_synced_def hexOnly_def)
  show ?thesis using nf garbled down ok by blast
qed

section \<open>The default error handler\<close>

text \<open>
  C5. For every handler, module, branch, sync point and underlying error \<open>e\<close>, the
  InvalidSyncPoint hook returns a non-nil error, so the sync aborts: the diagnostic
  "last synced commit ... was not found for module ...; did you rebase?" with the sync
  point and the module as its arguments when \<open>e\<close> is the git object-not-found error,
  and \<open>e\<close> itself otherwise. The hook writes nothing to the logger.
\<close>

theorem InvalidSyncPoint_aborts:
  "fst (InvalidSyncPoint s m branch syncPoint (Some e)) \<noteq> None
   \<and> snd (InvalidSyncPoint s m branch syncPoint (Some e)) = s
   \<and> (errors_Is e ErrObjectNotFound \<longrightarrow>
        fst (InvalidSyncPoint s m branch syncPoint (Some e)) =
          Some (Errorf ''last synced commit %s was not found for module %s; did you rebase?''
            [ArgHash syncPoint, ArgModule m]))
   \<and> (\<not> errors_Is e ErrObjectNotFound \<longrightarrow>
        fst (InvalidSyncPoint s m branch syncPoint (Some e)) = Some e)"
  by (simp add: InvalidSyncPoint_def)

theorem InvalidSyncPoint_aborts_witness:
  "errors_Is (ErrorfW ''read commit: %w'' [] ErrObjectNotFound) ErrObjectNotFound
   \<and> InvalidSyncPoint quiet_handler proto_module ''main'' (Hash ''c2'')
        (Some (ErrorfW ''read commit: %w'' [] ErrObjectNotFound)) =
       (Some (Errorf ''last synced commit %s was not found for module %s; did you rebase?''
          [ArgHash (Hash ''c2''), ArgModule proto_module]), quiet_handler)
   \<and> \<not> errors_Is (OtherError ''corrupted'') ErrObjectNotFound
   \<and> InvalidSyncPoint quiet_handler proto_module ''main'' (Hash ''c2'')
        (Some (OtherError ''corrupted'')) = (Some (OtherError ''corrupted''), quiet_handler)"
proof -
  have a: "errors_Is (ErrorfW ''read commit: %w'' [] ErrObjectNotFound) ErrObjectNotFound"
    by simp
  have b: "\<not> errors_Is (OtherError ''corrupted'') ErrObjectNotFound"
    by simp
  show ?thesis
    using a b
      InvalidSyncPoint_aborts [of quiet_handler proto_module "''main''" "Hash ''c2''"
        "ErrorfW ''read commit: %w'' [] ErrObjectNotFound"]
      InvalidSyncPoint_aborts [of quiet_handler proto_module "''main''" "Hash ''c2''"
        "OtherError ''corrupted''"]
    by (simp add: prod_eq_iff)
qed

text \<open>
  C6. For every handler, module, commit and underlying error (nil included), the
  InvalidModuleConfig hook and the BuildFailure hook return nil, and each writes exactly
  one warning to the logger: under the default policy neither defect aborts the sync.
\<close>

theorem default_handler_continues:
  "BuildFailure s m commit err =
     (None, s\<lparr>logger := logger s @ [Warn ''module build failure''
        [Stringer ''commit'' (ArgHash (commit_Hash commit)), Stringer ''module'' (ArgModule m),
         ErrorField err]]\<rparr>)
   \<and> InvalidModuleConfig s m commit err =
     (None, s\<lparr>logger := logger s @ [Warn ''invalid module config''
        [Stringer ''commit'' (ArgHash (commit_Hash commit)), Stringer ''module'' (ArgModule m),
         ErrorField err]]\<rparr>)"
  by (simp add: BuildFailure_def InvalidModuleConfig_def)

theorem default_handler_continues_witness:
  "fst (BuildFailure quiet_handler proto_module commit_c1 (Some (OtherError ''lint''))) = None
   \<and> logger (snd (BuildFailure quiet_handler proto_module commit_c1 (Some (OtherError ''lint''))))
       = [Warn ''module build failure''
           [Stringer ''commit'' (ArgHash (Hash ''c1'')), Stringer ''module'' (ArgModule proto_module),
            ErrorField (Some (OtherError ''lint''))]]
   \<and> fst (InvalidModuleConfig quiet_handler proto_module commit_c1 (Some (OtherError ''yaml''))) = None
   \<and> logger (snd (InvalidModuleConfig quiet_handler proto_module commit_c1 (Some (OtherError ''yaml''))))
       = [Warn ''invalid module config''
           [Stringer ''commit'' (ArgHash (Hash ''c1'')), Stringer ''module'' (ArgModule proto_module),
            ErrorField (Some (OtherError ''yaml''))]]"
  using default_handler_continues [of quiet_handler proto_module commit_c1 "Some (OtherError ''lint'')"]
    default_handler_continues [of quiet_handler proto_module commit_c1 "Some (OtherError ''yaml'')"]
  by (simp add: quiet_handler_def commit_c1_def)

section \<open>The default branch getter\<close>

text \<open>
  C7. For every registry and module identity: the getter returns the sentinel
  \<open>ErrModuleDoesNotExist\<close> exactly when the registry answers NotFound; any other
  transport error is returned wrapped, an error that is not the sentinel; and a response
  carrying the repository yields that repository's default branch with no error.
\<close>

theorem defaultBranchGetter_sentinel_iff_not_found:
  "(defaultBranchGetter clientConfig m = Return (Inl ErrModuleDoesNotExist)
      \<longleftrightarrow> (\<exists>err. GetRepositoryByFullName clientConfig (mi_Remote m) (repositoryRequest m) = Inl err
                 \<and> CodeOf err = CodeNotFound))
   \<and> (\<forall>err. GetRepositoryByFullName clientConfig (mi_Remote m) (repositoryRequest m) = Inl err
          \<and> CodeOf err \<noteq> CodeNotFound
        \<longrightarrow> defaultBranchGetter clientConfig m =
              Return (Inl (ErrorfW ''get repository by full name %q: %w''
                [ArgString (mi_IdentityString m)] err)))
   \<and> (\<forall>res repository.
        GetRepositoryByFullName clientConfig (mi_Remote m) (repositoryRequest m) = Inr res
          \<and> resp_Repository res = Some repository
        \<longrightarrow> defaultBranchGetter clientConfig m = Return (Inr (DefaultBranch repository)))"
  unfolding defaultBranchGetter_def
  by (auto split: sum.splits option.splits)

theorem defaultBranchGetter_sentinel_iff_not_found_witness:
  "defaultBranchGetter registry_not_created petapis = Return (Inl ErrModuleDoesNotExist)
   \<and> defaultBranchGetter registry_down petapis =
       Return (Inl (ErrorfW ''get repository by full name %q: %w''
         [ArgString ''buf.build/acme/petapis''] (ConnectError CodeUnavailable ''down'')))
   \<and> defaultBranchGetter registry_synced petapis = Return (Inr ''main'')"
proof -
  have nf: "defaultBranchGetter registry_not_created petapis = Return (Inl ErrModuleDoesNotExist)"
    using defaultBranchGetter_sentinel_iff_not_found [of registry_not_created petapis]
    by (simp add: registry_not_created_def)
  have down: "defaultBranchGetter registry_down petapis =
       Return (Inl (ErrorfW ''get repository by full name %q: %w''
         [ArgString ''buf.build/acme/petapis''] (ConnectError CodeUnavailable ''down'')))"
    using defaultBranchGetter_sentinel_iff_not_found [of registry_down petapis]
    by (simp add: registry_down_def petapis_def)
  have ok: "defaultBranchGetter registry_synced petapis = Return (Inr ''main'')"
    using defaultBranchGetter_sentinel_iff_not_found [of registry_synced petapis]
    by (simp add: registry_synced_def)
  show ?thesis using nf down ok by blast
qed

section \<open>The command\<close>

lemma IndexRune_ge: "- 1 \<le> IndexRune s r"
  by (induction s) (auto simp: Let_def)

lemma IndexRune_absent: "IndexRune s r = - 1 \<longleftrightarrow> r \<notin> set s"
proof (induction s)
  case Nil
  show ?case by simp
next
  case (Cons c s)
  have "- 1 \<le> IndexRune s r" by (rule IndexRune_ge)
  with Cons show ?case by (auto simp: Let_def)
qed

lemma IndexRune_first: "r \<notin> set d \<Longrightarrow> IndexRune (d @ r # rest) r = int (length d)"
proof (induction d)
  case Nil
  show ?case by simp
next
  case (Cons c d)
  then show ?case by (auto simp: Let_def)
qed

lemma moduleOptions_missing_identity:
  "CHR '':'' \<notin> set m \<Longrightarrow>
   moduleOptions env (m # rest) syncerOptions =
     Inl (InvalidArgumentErrorf ''module %q is missing an identity'' [ArgString m])"
  by (simp add: IndexRune_absent)

lemma moduleOptions_fails:
  "m \<in> set modules \<Longrightarrow> CHR '':'' \<notin> set m \<Longrightarrow> isl (moduleOptions env modules syncerOptions)"
proof (induction modules arbitrary: syncerOptions)
  case Nil
  then show ?case by simp
next
  case (Cons a modules)
  show ?case
  proof (cases "CHR '':'' \<in> set a")
    case False
    then show ?thesis by (simp add: IndexRune_absent)
  next
    case True
    with Cons.prems have "m \<in> set modules" by auto
    then have "\<And>opts. isl (moduleOptions env modules opts)"
      using Cons.IH Cons.prems(2) by blast
    then show ?thesis
      by (simp add: Let_def split: sum.splits)
  qed
qed

lemma moduleOptions_with_identity:
  assumes "CHR '':'' \<notin> set dir"
    and "env_ModuleIdentityForString env identity = Inr override"
    and "env_newSyncableModule env (env_Normalize env dir) (Some override) = Inr syncModule"
  shows "moduleOptions env [dir @ '':'' @ identity] syncerOptions =
     Inr (syncerOptions @ [SyncerWithModule syncModule])"
proof -
  have i: "IndexRune (dir @ CHR '':'' # identity) CHR '':'' = int (length dir)"
    using IndexRune_first [OF assms(1), of identity] by simp
  have n: "nat (int (length dir) + 1) = Suc (length dir)" by simp
  have "moduleOptions env [dir @ CHR '':'' # identity] syncerOptions =
     Inr (syncerOptions @ [SyncerWithModule syncModule])"
    using assms(2,3) by (simp add: i n NewModule_def del: of_nat_add)
  then show ?thesis by simp
qed

lemma syncOpened_missing_identity:
  assumes "m \<in> set modules" and "CHR '':'' \<notin> set m"
  shows "snd (syncOpened env repo modules cv ab) \<noteq> None
     \<and> fst (syncOpened env repo modules cv ab) = [EvNewConnectClientConfig]"
proof (cases "env_NewConnectClientConfig env")
  case (Inl err)
  then show ?thesis by (simp add: syncOpened_def)
next
  case (Inr clientConfig)
  define base :: "(Resolver, Checker, Getter) SyncerOption list" where
    "base = [SyncerWithResumption (syncPointResolver (env_NewHashFromHex env) clientConfig),
             SyncerWithGitCommitChecker (syncGitCommitChecker clientConfig),
             SyncerWithModuleDefaultBranchGetter (defaultBranchGetter clientConfig)]"
  obtain e where "moduleOptions env modules
      (if ab then base @ [SyncerWithAllBranches] else base) = Inl e"
    using moduleOptions_fails [OF assms] by (metis isl_def)
  then show ?thesis
    using Inr by (cases ab) (simp_all add: syncOpened_def Let_def base_def)
qed

lemma sync_missing_identity:
  assumes "m \<in> set modules" and "CHR '':'' \<notin> set m"
  shows "snd (sync env modules cv ab) \<noteq> None
     \<and> EvNewSyncer \<notin> set (fst (sync env modules cv ab))
     \<and> EvSync \<notin> set (fst (sync env modules cv ab))"
proof -
  have ne: "length modules \<noteq> 0" using assms(1) by auto
  show ?thesis
  proof (cases "env_OpenRepository env")
    case (Inl err)
    then show ?thesis using ne by (simp add: sync_def)
  next
    case (Inr repo)
    obtain events err where so: "syncOpened env repo modules cv ab = (events, err)"
      by (cases "syncOpened env repo modules cv ab")
    with syncOpened_missing_identity [OF assms, of env repo cv ab]
    have "err \<noteq> None" "events = [EvNewConnectClientConfig]" by simp_all
    then show ?thesis using ne Inr so by (simp add: sync_def)
  qed
qed

lemma sync_events_nonempty: "fst (sync env modules cv ab) \<noteq> []"
  by (simp add: sync_def split: sum.splits prod.splits)

text \<open>
  C8, as the code has it. On the command line a module is configured from an argument
  of the form directory, colon, identity: the directory is the text before the first
  colon and the identity override is parsed from the text after it. An argument that
  names only a directory is rejected with the invalid-argument error "module ... is
  missing an identity"; whenever one of the arguments has no colon, \<open>sync\<close> returns an
  error and neither constructs nor runs a syncer.
\<close>

theorem sync_module_argument_needs_identity:
  "(\<forall>m. m \<in> set modules \<and> CHR '':'' \<notin> set m \<longrightarrow>
        snd (sync env modules createWithVisibility allBranches) \<noteq> None
      \<and> EvNewSyncer \<notin> set (fst (sync env modules createWithVisibility allBranches))
      \<and> EvSync \<notin> set (fst (sync env modules createWithVisibility allBranches)))
   \<and> (\<forall>m rest syncerOptions. CHR '':'' \<notin> set m \<longrightarrow>
        moduleOptions env (m # rest) syncerOptions =
          Inl (InvalidArgumentErrorf ''module %q is missing an identity'' [ArgString m]))
   \<and> (\<forall>dir identity override syncModule syncerOptions.
        CHR '':'' \<notin> set dir
        \<and> env_ModuleIdentityForString env identity = Inr override
        \<and> env_newSyncableModule env (env_Normalize env dir) (Some override) = Inr syncModule
        \<longrightarrow> moduleOptions env [dir @ '':'' @ identity] syncerOptions =
              Inr (syncerOptions @ [SyncerWithModule syncModule]))"
  using sync_missing_identity moduleOptions_missing_identity moduleOptions_with_identity
  by blast

theorem sync_module_argument_needs_identity_witness:
  "''proto'' \<in> set [''proto:buf.build/acme/petapis'', ''proto'']
   \<and> CHR '':'' \<notin> set ''proto''
   \<and> snd (sync example_env [''proto:buf.build/acme/petapis'', ''proto''] [] False) \<noteq> None
   \<and> EvSync \<notin> set (fst (sync example_env [''proto:buf.build/acme/petapis'', ''proto''] [] False))
   \<and> moduleOptions example_env [''proto:buf.build/acme/petapis''] [] =
       Inr [SyncerWithModule proto_module]"
proof -
  have a: "''proto'' \<in> set [''proto:buf.build/acme/petapis'', ''proto'']" by simp
  have b: "CHR '':'' \<notin> set ''proto''" by simp
  have c: "env_ModuleIdentityForString example_env ''buf.build/acme/petapis'' = Inr petapis"
    by (simp add: example_env_def)
  have d: "env_newSyncableModule example_env (env_Normalize example_env ''proto'') (Some petapis)
      = Inr proto_module"
    by (simp add: example_env_def proto_module_def petapis_def)
  have e: "''proto'' @ '':'' @ ''buf.build/acme/petapis'' = ''proto:buf.build/acme/petapis''"
    by simp
  note t = sync_module_argument_needs_identity
    [of "[''proto:buf.build/acme/petapis'', ''proto'']" example_env "[]" False]
  have f: "moduleOptions example_env [''proto'' @ '':'' @ ''buf.build/acme/petapis''] [] =
       Inr ([] @ [SyncerWithModule proto_module])"
    using t b c d by blast
  show ?thesis using t a b f unfolding e by auto
qed

theorem sync_directory_only_counterexample:
  "sync example_env [''proto''] [] False =
     ([EvOpenRepository, EvNewConnectClientConfig, EvCloseRepository],
      Some (InvalidArgumentErrorf ''module %q is missing an identity'' [ArgString ''proto'']))"
  by (simp add: sync_def syncOpened_def example_env_def Let_def)

text \<open>
  C9. With no module to sync, \<open>sync\<close> returns nil and its only effect is the log line
  "no modules to sync": the repository is not opened, no client configuration and no
  syncer are made, and the syncer is not run, so the registry is not contacted and no
  ModuleCommit is delivered. The same holds of the command when its flags pass
  validation.
\<close>

theorem sync_no_modules:
  "sync env [] createWithVisibility allBranches = ([Logged (Info ''no modules to sync'' [])], None)
   \<and> (env_ValidateErrorFormatFlag env (ErrorFormat flags) errorFormatFlagName = None
        \<and> CreateVisibility flags = [] \<and> \<not> Create flags \<and> Modules flags = []
      \<longrightarrow> run env flags = ([Logged (Info ''no modules to sync'' [])], None))"
  by (simp add: sync_def run_def)

theorem sync_no_modules_witness:
  "sync example_env [] ''private'' True = ([Logged (Info ''no modules to sync'' [])], None)
   \<and> run example_env ((example_flags False []) \<lparr>Modules := []\<rparr>)
       = ([Logged (Info ''no modules to sync'' [])], None)"
  using sync_no_modules [of example_env "''private''" True "(example_flags False []) \<lparr>Modules := []\<rparr>"]
  by (simp add: example_env_def example_flags_def errorFormatFlagName_def)

text \<open>
  C10. Provided the check of the error format, which comes first, fails only with
  invalid-argument errors: whenever --create-visibility is set without --create, or
  --create is set with --create-visibility empty or refused by
  \<open>VisibilityFlagToVisibility\<close>, the command returns an invalid-argument error and
  has no effect at all. When the error format is accepted and the two flags are both
  absent or both validly set, the command is the run of \<open>sync\<close>; in every other case
  it returns an error with no effect, so \<open>sync\<close>, which always has an effect, has not
  begun.
\<close>

theorem run_rejects_inconsistent_create_flags:
  assumes "\<forall>e. env_ValidateErrorFormatFlag env (ErrorFormat flags) errorFormatFlagName = Some e
             \<longrightarrow> is_invalid_argument e"
  shows "(((CreateVisibility flags \<noteq> [] \<and> \<not> Create flags)
          \<or> (Create flags \<and> (CreateVisibility flags = []
                \<or> isl (env_VisibilityFlagToVisibility env (CreateVisibility flags)))))
        \<longrightarrow> (\<exists>e. run env flags = ([], Some e) \<and> is_invalid_argument e))
     \<and> (env_ValidateErrorFormatFlag env (ErrorFormat flags) errorFormatFlagName = None
          \<and> ((CreateVisibility flags = [] \<and> \<not> Create flags)
             \<or> (CreateVisibility flags \<noteq> [] \<and> Create flags
                 \<and> \<not> isl (env_VisibilityFlagToVisibility env (CreateVisibility flags))))
        \<longrightarrow> run env flags = sync env (Modules flags) (CreateVisibility flags) (AllBranches flags)
          \<and> fst (run env flags) \<noteq> [])
     \<and> (\<not> (env_ValidateErrorFormatFlag env (ErrorFormat flags) errorFormatFlagName = None
          \<and> ((CreateVisibility flags = [] \<and> \<not> Create flags)
             \<or> (CreateVisibility flags \<noteq> [] \<and> Create flags
                 \<and> \<not> isl (env_VisibilityFlagToVisibility env (CreateVisibility flags)))))
        \<longrightarrow> fst (run env flags) = [] \<and> snd (run env flags) \<noteq> None)"
proof (intro conjI)
  show "((CreateVisibility flags \<noteq> [] \<and> \<not> Create flags)
          \<or> (Create flags \<and> (CreateVisibility flags = []
                \<or> isl (env_VisibilityFlagToVisibility env (CreateVisibility flags)))))
        \<longrightarrow> (\<exists>e. run env flags = ([], Some e) \<and> is_invalid_argument e)"
    using assms by (auto simp: run_def isl_def split: option.splits sum.splits)
  show "env_ValidateErrorFormatFlag env (ErrorFormat flags) errorFormatFlagName = None
          \<and> ((CreateVisibility flags = [] \<and> \<not> Create flags)
             \<or> (CreateVisibility flags \<noteq> [] \<and> Create flags
                 \<and> \<not> isl (env_VisibilityFlagToVisibility env (CreateVisibility flags))))
        \<longrightarrow> run env flags = sync env (Modules flags) (CreateVisibility flags) (AllBranches flags)
          \<and> fst (run env flags) \<noteq> []"
    by (auto simp: run_def sync_events_nonempty split: option.splits sum.splits)
  show "\<not> (env_ValidateErrorFormatFlag env (ErrorFormat flags) errorFormatFlagName = None
          \<and> ((CreateVisibility flags = [] \<and> \<not> Create flags)
             \<or> (CreateVisibility flags \<noteq> [] \<and> Create flags
                 \<and> \<not> isl (env_VisibilityFlagToVisibility env (CreateVisibility flags)))))
        \<longrightarrow> fst (run env flags) = [] \<and> snd (run env flags) \<noteq> None"
    by (auto simp: run_def split: option.splits sum.splits)
qed

theorem run_rejects_inconsistent_create_flags_witness:
  "run example_env (example_flags False ''private'') =
     ([], Some (InvalidArgumentErrorf ''Cannot set --%s without --%s.''
        [ArgString ''create-visibility'', ArgString ''create'']))
   \<and> run example_env (example_flags True []) =
     ([], Some (InvalidArgumentErrorf ''--%s is required if --%s is set.''
        [ArgString ''create-visibility'', ArgString ''create'']))
   \<and> run example_env (example_flags True ''secret'') =
     ([], Some (InvalidArgumentErrorOf (Errorf ''invalid visibility: %s'' [ArgString ''secret''])))
   \<and> (\<exists>e. run example_env (example_flags True ''secret'') = ([], Some e) \<and> is_invalid_argument e)
   \<and> fst (run example_env (example_flags True ''private'')) \<noteq> []
   \<and> run example_env (example_flags True ''private'') =
       sync example_env [''proto:buf.build/acme/petapis''] ''private'' False
   \<and> fst (run example_env (example_flags False [])) \<noteq> []"
proof -
  have v: "\<And>fl. \<forall>e. env_ValidateErrorFormatFlag example_env (ErrorFormat fl) errorFormatFlagName
              = Some e \<longrightarrow> is_invalid_argument e"
    by (auto simp: example_env_def split: if_splits)
  have ok: "\<And>c vis. env_ValidateErrorFormatFlag example_env
               (ErrorFormat (example_flags c vis)) errorFormatFlagName = None"
    by (simp add: example_env_def example_flags_def)
  have ok': "env_ValidateErrorFormatFlag example_env ''text'' errorFormatFlagName = None"
    by (simp add: example_env_def)
  have a: "run example_env (example_flags False ''private'') =
     ([], Some (InvalidArgumentErrorf ''Cannot set --%s without --%s.''
        [ArgString ''create-visibility'', ArgString ''create'']))"
    by (simp add: run_def ok' example_flags_def createVisibilityFlagName_def createFlagName_def)
  have b: "run example_env (example_flags True []) =
     ([], Some (InvalidArgumentErrorf ''--%s is required if --%s is set.''
        [ArgString ''create-visibility'', ArgString ''create'']))"
    by (simp add: run_def ok' example_flags_def createVisibilityFlagName_def createFlagName_def)
  have c: "run example_env (example_flags True ''secret'') =
     ([], Some (InvalidArgumentErrorOf (Errorf ''invalid visibility: %s'' [ArgString ''secret''])))"
    by (simp add: run_def ok' example_flags_def) (simp add: example_env_def)
  have d: "\<exists>e. run example_env (example_flags True ''secret'') = ([], Some e) \<and> is_invalid_argument e"
  proof -
    have "Create (example_flags True ''secret'')"
      by (simp add: example_flags_def)
    moreover have "isl (env_VisibilityFlagToVisibility example_env
        (CreateVisibility (example_flags True ''secret'')))"
      by (simp add: example_flags_def example_env_def)
    ultimately show ?thesis
      using run_rejects_inconsistent_create_flags [OF v, of "example_flags True ''secret''"]
      by blast
  qed
  have ef: "run example_env (example_flags True ''private'') =
        sync example_env (Modules (example_flags True ''private''))
          (CreateVisibility (example_flags True ''private''))
          (AllBranches (example_flags True ''private''))
      \<and> fst (run example_env (example_flags True ''private'')) \<noteq> []"
  proof -
    have "CreateVisibility (example_flags True ''private'') \<noteq> []"
      and "Create (example_flags True ''private'')"
      by (simp_all add: example_flags_def)
    moreover have "\<not> isl (env_VisibilityFlagToVisibility example_env
        (CreateVisibility (example_flags True ''private'')))"
      by (simp add: example_flags_def example_env_def)
    ultimately show ?thesis
      using run_rejects_inconsistent_create_flags [OF v, of "example_flags True ''private''"]
        ok [of True "''private''"]
      by blast
  qed
  have sel: "Modules (example_flags True ''private'') = [''proto:buf.build/acme/petapis'']"
    "CreateVisibility (example_flags True ''private'') = ''private''"
    "AllBranches (example_flags True ''private'') = False"
    by (simp_all add: example_flags_def)
  have e: "fst (run example_env (example_flags True ''private'')) \<noteq> []"
    using ef by blast
  have f: "run example_env (example_flags True ''private'') =
       sync example_env [''proto:buf.build/acme/petapis''] ''private'' False"
    using ef by (simp only: sel)
  have g: "fst (run example_env (example_flags False [])) \<noteq> []"
  proof -
    have "CreateVisibility (example_flags False []) = []"
      and "\<not> Create (example_flags False [])"
      by (simp_all add: example_flags_def)
    then show ?thesis
      using run_rejects_inconsistent_create_flags [OF v, of "example_flags False []"]
        ok [of False "[]"]
      by blast
  qed
  show ?thesis using a b c d e f g by blast
qed

section \<open>The order of delivery\<close>

lemma materialize_delivers:
  "materialize d f br c m w = (e, ds, w') \<Longrightarrow> x \<in> set ds \<Longrightarrow> mc_Branch x = br \<and> mc_Commit x = c"
  unfolding materialize_def
  by (auto simp: Let_def split: sum.splits option.splits prod.splits)

lemma syncModulesAtCommit_delivers:
  "syncModulesAtCommit d f br c plans w = (e, ds, w') \<Longrightarrow> x \<in> set ds \<Longrightarrow>
   mc_Branch x = br \<and> mc_Commit x = c"
proof (induction plans arbitrary: w e ds w')
  case Nil
  then show ?case by simp
next
  case (Cons a plans)
  obtain m toDeliver where a: "a = (m, toDeliver)" by (cases a)
  show ?case
  proof (cases "dep_ctxErr d w")
    case (Some err)
    with Cons.prems a show ?thesis by simp
  next
    case None
    show ?thesis
    proof (cases "commit_Hash c \<in> set toDeliver")
      case False
      with Cons.prems a None have "syncModulesAtCommit d f br c plans w = (e, ds, w')" by simp
      then show ?thesis using Cons.IH Cons.prems(2) by blast
    next
      case True
      obtain e1 ds1 w1 where m1: "materialize d f br c m w = (e1, ds1, w1)"
        by (cases "materialize d f br c m w")
      show ?thesis
      proof (cases e1)
        case (Some err)
        with Cons.prems a None True m1 have "ds = ds1" by simp
        then show ?thesis using materialize_delivers [OF m1] Cons.prems(2) by blast
      next
        case None': None
        obtain e2 ds2 w2 where r: "syncModulesAtCommit d f br c plans w1 = (e2, ds2, w2)"
          by (cases "syncModulesAtCommit d f br c plans w1")
        with Cons.prems a None True m1 None' have "ds = ds1 @ ds2" by simp
        then show ?thesis
          using materialize_delivers [OF m1] Cons.IH [OF r] Cons.prems(2) by auto
      qed
    qed
  qed
qed

lemma syncCommits_delivers:
  "syncCommits d f br cs plans w = (e, ds, w') \<Longrightarrow> sorted_wrt (ancestor repo) cs \<Longrightarrow>
   (\<forall>x \<in> set ds. mc_Branch x = br \<and> mc_Commit x \<in> set cs) \<and> sorted_wrt (in_order repo) ds"
proof (induction cs arbitrary: w e ds w')
  case Nil
  then show ?case by simp
next
  case (Cons c cs)
  obtain e1 ds1 w1 where m1: "syncModulesAtCommit d f br c plans w = (e1, ds1, w1)"
    by (cases "syncModulesAtCommit d f br c plans w")
  have h1: "\<forall>x \<in> set ds1. mc_Branch x = br \<and> mc_Commit x = c"
    using syncModulesAtCommit_delivers [OF m1] by blast
  then have s1: "sorted_wrt (in_order repo) ds1"
    by (simp add: sorted_wrt_iff_nth_less in_order_def)
  show ?case
  proof (cases e1)
    case (Some err)
    with Cons.prems m1 have "ds = ds1" by simp
    then show ?thesis using h1 s1 by simp
  next
    case None
    obtain e2 ds2 w2 where r: "syncCommits d f br cs plans w1 = (e2, ds2, w2)"
      by (cases "syncCommits d f br cs plans w1")
    with Cons.prems m1 None have ds: "ds = ds1 @ ds2" by simp
    have srt: "sorted_wrt (ancestor repo) cs" and hd: "\<forall>c' \<in> set cs. ancestor repo c c'"
      using Cons.prems(2) by simp_all
    have ih: "(\<forall>x \<in> set ds2. mc_Branch x = br \<and> mc_Commit x \<in> set cs)
        \<and> sorted_wrt (in_order repo) ds2"
      using Cons.IH [OF r srt] .
    have cross: "\<forall>x \<in> set ds1. \<forall>y \<in> set ds2. in_order repo x y"
      using h1 ih hd by (simp add: in_order_def)
    show ?thesis
      using ds h1 s1 ih cross by (auto simp: sorted_wrt_append)
  qed
qed

lemma ancestry_sorted:
  assumes "successively (\<lambda>c p. (p, c) \<in> parent_rel repo) chain"
  shows "sorted_wrt (ancestor repo) (rev chain)"
proof -
  have "successively (\<lambda>c p. ancestor repo p c) chain"
    using assms by (rule successively_mono) (auto simp: ancestor_def)
  moreover have "transp (\<lambda>c p. ancestor repo p c)"
    by (auto simp: transp_def ancestor_def)
  ultimately have "sorted_wrt (\<lambda>c p. ancestor repo p c) chain"
    by (simp add: successively_conv_sorted_wrt)
  then show ?thesis by (simp add: sorted_wrt_rev)
qed

lemma syncBranch_delivers:
  assumes "syncBranch d s f br w = (e, ds, w')" and "well_formed (dep_repo d)"
  shows "(\<forall>x \<in> set ds. mc_Branch x = br) \<and> sorted_wrt (in_order (dep_repo d)) ds"
proof -
  have srt: "sorted_wrt (ancestor (dep_repo d)) (rev (repo_Ancestry (dep_repo d) br))"
    using assms(2) by (simp add: well_formed_def ancestry_sorted)
  obtain r w1 where p: "planModules d s br (repo_Ancestry (dep_repo d) br)
      (syncer_modulesToSync s) w = (r, w1)"
    by (cases "planModules d s br (repo_Ancestry (dep_repo d) br) (syncer_modulesToSync s) w")
  show ?thesis
  proof (cases r)
    case (Inl err)
    with assms(1) p show ?thesis by (simp add: syncBranch_def)
  next
    case (Inr plans)
    with assms(1) p have "syncCommits d f br (rev (repo_Ancestry (dep_repo d) br)) plans w1
        = (e, ds, w')"
      by (simp add: syncBranch_def)
    from syncCommits_delivers [OF this srt] show ?thesis by blast
  qed
qed

lemma syncBranches_delivers:
  "syncBranches d s f brs w = (e, ds, w') \<Longrightarrow> well_formed (dep_repo d) \<Longrightarrow> distinct brs \<Longrightarrow>
   (\<forall>x \<in> set ds. mc_Branch x \<in> set brs) \<and> sorted_wrt (branch_order (dep_repo d)) ds"
proof (induction brs arbitrary: w e ds w')
  case Nil
  then show ?case by simp
next
  case (Cons br brs)
  obtain e1 ds1 w1 where b1: "syncBranch d s f br w = (e1, ds1, w1)"
    by (cases "syncBranch d s f br w")
  have h1: "(\<forall>x \<in> set ds1. mc_Branch x = br) \<and> sorted_wrt (in_order (dep_repo d)) ds1"
    using syncBranch_delivers [OF b1 Cons.prems(2)] .
  have s1: "sorted_wrt (branch_order (dep_repo d)) ds1"
    using h1 by (auto simp: branch_order_def intro: sorted_wrt_mono_rel [rotated])
  show ?case
  proof (cases e1)
    case (Some err)
    with Cons.prems(1) b1 have "ds = ds1" by simp
    then show ?thesis using h1 s1 by simp
  next
    case None
    obtain e2 ds2 w2 where r: "syncBranches d s f brs w1 = (e2, ds2, w2)"
      by (cases "syncBranches d s f brs w1")
    with Cons.prems(1) b1 None have ds: "ds = ds1 @ ds2" by simp
    have ih: "(\<forall>x \<in> set ds2. mc_Branch x \<in> set brs)
        \<and> sorted_wrt (branch_order (dep_repo d)) ds2"
      using Cons.IH [OF r Cons.prems(2)] Cons.prems(3) by simp
    have "br \<notin> set brs" using Cons.prems(3) by simp
    then have cross: "\<forall>x \<in> set ds1. \<forall>y \<in> set ds2. branch_order (dep_repo d) x y"
      using h1 ih by (auto simp: branch_order_def)
    show ?thesis
      using ds h1 s1 ih cross by (auto simp: sorted_wrt_append)
  qed
qed

lemma not_in_sorted_others: "x \<notin> set (sorted_list_of_set (A - {x}))"
proof (cases "finite (A - {x})")
  case True
  then show ?thesis by simp
next
  case False
  then show ?thesis by (simp add: sorted_list_of_set.fold_insort_key.infinite)
qed

lemma distinct_branchesToSync: "distinct (branchesToSync repo allBranches)"
  by (simp add: branchesToSync_def not_in_sorted_others)

lemma Sync_delivers:
  assumes "Sync d s f w = (e, ds, w')" and "well_formed (dep_repo d)"
  shows "sorted_wrt (branch_order (dep_repo d)) ds"
proof -
  obtain g w1 where g: "(case syncer_moduleDefaultBranchGetter s of
              None \<Rightarrow> (None, w)
            | Some getter \<Rightarrow>
                checkDefaultBranches getter (repo_DefaultBranch (dep_repo d))
                  (syncer_modulesToSync s) w) = (g, w1)"
    by (cases "(case syncer_moduleDefaultBranchGetter s of
              None \<Rightarrow> (None, w)
            | Some getter \<Rightarrow>
                checkDefaultBranches getter (repo_DefaultBranch (dep_repo d))
                  (syncer_modulesToSync s) w)")
  show ?thesis
  proof (cases g)
    case (Some err)
    with assms(1) g show ?thesis by (simp add: Sync_def)
  next
    case None
    with assms(1) g have "syncBranches d s f
        (branchesToSync (dep_repo d) (syncer_allBranches s)) w1 = (e, ds, w')"
      by (simp add: Sync_def)
    from syncBranches_delivers [OF this assms(2) distinct_branchesToSync]
    show ?thesis by blast
  qed
qed

lemma ancestor_irrefl: "well_formed repo \<Longrightarrow> \<not> ancestor repo a a"
  by (auto simp: well_formed_def ancestor_def acyclic_def)

lemma ancestor_asym: "well_formed repo \<Longrightarrow> ancestor repo a b \<Longrightarrow> \<not> ancestor repo b a"
  by (metis ancestor_def ancestor_irrefl trancl_trans)

subsection \<open>The scenario\<close>

lemma example_parents:
  "(commit_c1, commit_c2) \<in> parent_rel example_repo"
  "(commit_c2, commit_c3) \<in> parent_rel example_repo"
  by (simp_all add: parent_rel_def example_repo_def commit_c1_def commit_c2_def commit_c3_def)

lemma example_acyclic: "acyclic (parent_rel example_repo)"
proof (rule acyclicI_order)
  fix a b
  assume "(a, b) \<in> parent_rel example_repo"
  then show "(if commit_Hash b = Hash ''c1'' then 3 else if commit_Hash b = Hash ''c2'' then 2 else (1::nat))
     < (if commit_Hash a = Hash ''c1'' then 3 else if commit_Hash a = Hash ''c2'' then 2 else 1)"
    by (auto simp: parent_rel_def example_repo_def commit_c1_def commit_c2_def commit_c3_def
        split: if_splits)
qed

lemma example_well_formed: "well_formed example_repo"
  unfolding well_formed_def
proof (intro conjI allI)
  show "acyclic (parent_rel example_repo)" by (rule example_acyclic)
  fix branch
  show "successively (\<lambda>c p. (p, c) \<in> parent_rel example_repo) (repo_Ancestry example_repo branch)"
    using example_parents by (simp add: example_repo_def)
qed

lemma example_run:
  "Sync example_deps example_syncer example_sink \<lparr>w_synced = [], w_handler = quiet_handler\<rparr>
   = (None, [delivery commit_c1 [], delivery commit_c2 [], delivery commit_c3 [''v1'']],
      \<lparr>w_synced = [''c1'', ''c2'', ''c3''], w_handler = quiet_handler\<rparr>)"
  by (simp add: Sync_def branchesToSync_def syncBranch_def resolveSyncPoint_def
      commitsSince_def syncedHashes_def materialize_def Let_def
      example_deps_def example_syncer_def example_sink_def example_repo_def delivery_def
      commit_c1_def commit_c2_def commit_c3_def proto_module_def)


lemma example_second_run:
  "Sync example_deps example_syncer example_sink
     \<lparr>w_synced = [''c1'', ''c2''], w_handler = quiet_handler\<rparr>
   = (None, [delivery commit_c3 [''v1'']],
      \<lparr>w_synced = [''c1'', ''c2'', ''c3''], w_handler = quiet_handler\<rparr>)"
  by (simp add: Sync_def branchesToSync_def syncBranch_def resolveSyncPoint_def
      commitsSince_def syncedHashes_def materialize_def Let_def
      example_deps_def example_syncer_def example_sink_def example_repo_def delivery_def
      commit_c1_def commit_c2_def commit_c3_def proto_module_def)

text \<open>
  C1. For every run of \<open>Sync\<close> over a well-formed repository, whatever the
  collaborators answer and whether or not the run ends in an error: if two ModuleCommits
  handed to the sink carry the same branch and the commit of the first is an ancestor of
  the commit of the second, the first is handed over strictly before the second. This
  holds across the modules of the branch, hence for each module.
\<close>

theorem Sync_ancestors_first:
  assumes "well_formed (dep_repo d)"
    and "Sync d s syncFunc w = (err, delivered, w')"
    and "i < length delivered" and "j < length delivered"
    and "mc_Branch (delivered ! i) = mc_Branch (delivered ! j)"
    and "ancestor (dep_repo d) (mc_Commit (delivered ! i)) (mc_Commit (delivered ! j))"
  shows "i < j"
proof (rule ccontr)
  assume "\<not> i < j"
  then consider "i = j" | "j < i" by linarith
  then show False
  proof cases
    case 1
    then show ?thesis using assms(1,6) ancestor_irrefl by metis
  next
    case 2
    have "sorted_wrt (branch_order (dep_repo d)) delivered"
      using Sync_delivers [OF assms(2,1)] .
    then have "branch_order (dep_repo d) (delivered ! j) (delivered ! i)"
      using 2 assms(3) by (simp add: sorted_wrt_iff_nth_less)
    then have "in_order (dep_repo d) (delivered ! j) (delivered ! i)"
      using assms(5) by (simp add: branch_order_def)
    then show ?thesis
      using assms(1,6) ancestor_irrefl ancestor_asym unfolding in_order_def by metis
  qed
qed


theorem Sync_ancestors_first_witness:
  "well_formed (dep_repo example_deps)
   \<and> Sync example_deps example_syncer example_sink
        \<lparr>w_synced = [], w_handler = quiet_handler\<rparr>
      = (None, [delivery commit_c1 [], delivery commit_c2 [], delivery commit_c3 [''v1'']],
         \<lparr>w_synced = [''c1'', ''c2'', ''c3''], w_handler = quiet_handler\<rparr>)
   \<and> ancestor (dep_repo example_deps) commit_c1 commit_c3
   \<and> (0::nat) < 2"
proof -
  let ?ds = "[delivery commit_c1 [], delivery commit_c2 [], delivery commit_c3 [''v1'']]"
  have wf: "well_formed (dep_repo example_deps)"
    using example_well_formed by (simp add: example_deps_def)
  have anc: "ancestor (dep_repo example_deps) commit_c1 commit_c3"
    using example_parents by (auto simp: ancestor_def example_deps_def)
  have i: "(0::nat) < length ?ds" and j: "(2::nat) < length ?ds" by simp_all
  have br: "mc_Branch (?ds ! 0) = mc_Branch (?ds ! 2)" by (simp add: delivery_def)
  have anc': "ancestor (dep_repo example_deps) (mc_Commit (?ds ! 0)) (mc_Commit (?ds ! 2))"
    using anc by (simp add: delivery_def)
  have "(0::nat) < 2"
    using Sync_ancestors_first [OF wf example_run i j br anc'] .
  then show ?thesis using wf example_run anc by blast
qed

section \<open>What the run does with its collaborators' answers\<close>

text \<open>
  The contract that \<open>bufsync.go\<close> documents on each collaborator, on the run as
  modelled: an error of the resolver, of the checker or of the sink aborts; the
  InvalidSyncPoint hook decides between the root and an abort; under the command's
  handler a missing configuration or a build failure skips the commit and an invalid
  sync point aborts; the getter's sentinel passes the check and any other error of the
  getter aborts with nothing delivered; a duplicate module fails the construction.
\<close>

lemma resolver_error_aborts:
  assumes "syncer_syncPointResolver s = Some resolver"
    and "resolver w (module_RemoteIdentity m) branch = (Inl e, w1)"
    and "syncer_modulesToSync s = m # rest"
  shows "syncBranch d s syncFunc branch w = (Some e, [], w1)"
  using assms by (simp add: syncBranch_def resolveSyncPoint_def)

lemma checker_error_aborts:
  assumes "resolveSyncPoint d s m branch w = (Inr boundary, w1)"
    and "syncer_syncedGitCommitChecker s = Some checker"
    and "checker w1 (module_RemoteIdentity m)
           (set (map (\<lambda>commit. Hex (commit_Hash commit))
              (commitsSince boundary (repo_Ancestry (dep_repo d) branch)))) = (Inl e, w2)"
    and "syncer_modulesToSync s = m # rest"
  shows "syncBranch d s syncFunc branch w = (Some e, [], w2)"
  using assms by (simp add: syncBranch_def syncedHashes_def)

lemma branch_error_aborts:
  "syncBranch d s syncFunc branch w = (Some e, delivered, w1) \<Longrightarrow>
   syncBranches d s syncFunc (branch # branches) w = (Some e, delivered, w1)"
  by simp

lemma invalid_sync_point_hook_decides:
  assumes "syncer_syncPointResolver s = Some resolver"
    and "resolver w (module_RemoteIdentity m) branch = (Inr (Some syncPoint), w1)"
    and "repo_Resolve (dep_repo d) syncPoint = Inl e"
    and "eh_InvalidSyncPoint (dep_errorHandler d) w1 m branch syncPoint (Some e) = (herr, w2)"
  shows "resolveSyncPoint d s m branch w =
     (case herr of None \<Rightarrow> Inr None | Some err \<Rightarrow> Inl err, w2)"
  using assms by (simp add: resolveSyncPoint_def split: option.splits)

lemma default_handler_aborts_on_invalid_sync_point:
  assumes "dep_errorHandler d = default_handler"
    and "syncer_syncPointResolver s = Some resolver"
    and "resolver w (module_RemoteIdentity m) branch = (Inr (Some syncPoint), w1)"
    and "repo_Resolve (dep_repo d) syncPoint = Inl e"
  shows "\<exists>err. resolveSyncPoint d s m branch w = (Inl err, w1)"
  using assms
  by (simp add: resolveSyncPoint_def default_handler_def InvalidSyncPoint_def)

lemma default_handler_skips_defects:
  assumes "dep_errorHandler d = default_handler"
    and "dep_snapshot d commit (module_Dir m) = Inr bucket"
    and "isl (dep_readConfig d bucket) \<or> dep_build d bucket \<noteq> None"
  shows "fst (materialize d syncFunc branch commit m w) = None
     \<and> fst (snd (materialize d syncFunc branch commit m w)) = []"
  using assms
  by (auto simp: materialize_def default_handler_def InvalidModuleConfig_def BuildFailure_def
      isl_def split: sum.splits option.splits)

lemma getter_decides:
  assumes "syncer_moduleDefaultBranchGetter s = Some getter"
    and "syncer_modulesToSync s = m # rest"
    and "getter w (module_RemoteIdentity m) = (Inl e, w1)"
  shows "\<not> errors_Is e ErrModuleDoesNotExist \<Longrightarrow> Sync d s syncFunc w = (Some e, [], w1)"
    and "errors_Is e ErrModuleDoesNotExist \<Longrightarrow> rest = [] \<Longrightarrow>
      Sync d s syncFunc w =
        syncBranches d s syncFunc (branchesToSync (dep_repo d) (syncer_allBranches s)) w1"
  using assms by (simp_all add: Sync_def)

lemma sink_error_aborts:
  assumes "dep_snapshot d commit (module_Dir m) = Inr bucket"
    and "dep_readConfig d bucket = Inr declared"
    and "dep_build d bucket = None"
    and "materialize d syncFunc branch commit m w = (r, delivered, w1)"
  shows "\<exists>mc. delivered = [mc] \<and> syncFunc w mc = (r, w1)"
  using assms by (auto simp: materialize_def Let_def split: prod.splits)

lemma applyOptions_duplicate:
  assumes "existing \<in> set (syncer_modulesToSync s)"
    and "module_String existing = module_String m"
  shows "applyOptions (SyncerWithModule m # options) s =
     Inl (Errorf ''duplicate module %s'' [ArgModule m])"
  using duplicateModule_found [OF assms] by (simp add: SyncerWithModule_def)

lemma newSyncer_duplicate:
  assumes "module_String m1 = module_String m2"
  shows "newSyncer [SyncerWithModule m1, SyncerWithModule m2] =
     Inl (Errorf ''duplicate module %s'' [ArgModule m2])"
  using assms by (simp add: newSyncer_def SyncerWithModule_def)

end
